theory Spec2Isabelle
  imports Main
begin

section \<open>Values, dictionaries and strings\<close>

text \<open>
  The client moves JSON documents between a caller and an HTTP server. A Python value is
  modelled as a JSON value: \<open>None\<close> is \<open>JNull\<close>, a \<open>dict\<close> is \<open>JObj\<close>, a
  \<open>list\<close> is \<open>JArr\<close>. Numbers are integers (floating point is left out), strings are
  ASCII, and values are immutable: a dictionary is never shared between two objects.

  A dictionary is an association list with distinct keys, in insertion order. Storing
  under a key that is present keeps the key's position; a new key goes to the end.
\<close>

datatype json =
    JNull
  | JBool bool
  | JNum int
  | JStr string
  | JArr "json list"
  | JObj "(string \<times> json) list"

datatype error =
    HTTPError int
  | RequestException
  | JSONDecodeError
  | KeyError string
  | AttributeError
  | TypeError
  | ValueError
  | AssertionError
  | RecursionError
  | StopIteration
  | Unmodelled

fun dict_get :: "(string \<times> 'v) list \<Rightarrow> string \<Rightarrow> 'v option" where
  "dict_get [] k = None"
| "dict_get ((k', v) # d) k = (if k' = k then Some v else dict_get d k)"

fun dict_set :: "(string \<times> 'v) list \<Rightarrow> string \<Rightarrow> 'v \<Rightarrow> (string \<times> 'v) list" where
  "dict_set [] k v = [(k, v)]"
| "dict_set ((k', v') # d) k v = (if k' = k then (k, v) # d else (k', v') # dict_set d k v)"

definition dict_keys :: "(string \<times> 'v) list \<Rightarrow> string list" where
  "dict_keys d = map fst d"

definition dict_contains :: "(string \<times> 'v) list \<Rightarrow> string \<Rightarrow> bool" where
  "dict_contains d k = (dict_get d k \<noteq> None)"

text \<open>\<open>d.update(other)\<close> for a dictionary \<open>other\<close>: its entries are stored in order.\<close>

fun dict_update :: "(string \<times> 'v) list \<Rightarrow> (string \<times> 'v) list \<Rightarrow> (string \<times> 'v) list" where
  "dict_update d [] = d"
| "dict_update d ((k, v) # kvs) = dict_update (dict_set d k v) kvs"

text \<open>\<open>s.startswith('_')\<close>.\<close>

fun startswith_underscore :: "string \<Rightarrow> bool" where
  "startswith_underscore [] = False"
| "startswith_underscore (c # cs) = (c = CHR ''_'')"

text \<open>
  Names that begin with two underscores reach Python's own object protocol
  (\<open>__dict__\<close>, \<open>__class__\<close>, ...). Reading or binding them as attributes is outside
  the model and ends a run with \<open>Unmodelled\<close>.
\<close>

fun is_dunder :: "string \<Rightarrow> bool" where
  "is_dunder (a # b # cs) = (a = CHR ''_'' \<and> b = CHR ''_'')"
| "is_dunder cs = False"

text \<open>
  \<open>str.title()\<close> on ASCII: a letter that follows a letter is lowered, any other letter
  is raised, and every other character is kept and ends the word.
\<close>

definition is_lower :: "char \<Rightarrow> bool" where
  "is_lower c = (97 \<le> (of_char c :: nat) \<and> (of_char c :: nat) \<le> 122)"

definition is_upper :: "char \<Rightarrow> bool" where
  "is_upper c = (65 \<le> (of_char c :: nat) \<and> (of_char c :: nat) \<le> 90)"

definition to_upper :: "char \<Rightarrow> char" where
  "to_upper c = (if is_lower c
     then Char (digit0 c) (digit1 c) (digit2 c) (digit3 c) (digit4 c) False (digit6 c) (digit7 c)
     else c)"

definition to_lower :: "char \<Rightarrow> char" where
  "to_lower c = (if is_upper c
     then Char (digit0 c) (digit1 c) (digit2 c) (digit3 c) (digit4 c) True (digit6 c) (digit7 c)
     else c)"

fun title_from :: "bool \<Rightarrow> string \<Rightarrow> string" where
  "title_from previous_is_cased [] = []"
| "title_from previous_is_cased (c # cs) =
     (if previous_is_cased then to_lower c else to_upper c)
       # title_from (is_lower c \<or> is_upper c) cs"

definition str_title :: "string \<Rightarrow> string" where
  "str_title s = title_from False s"

text \<open>\<open>s.replace('_', '')\<close>.\<close>

definition remove_underscores :: "string \<Rightarrow> string" where
  "remove_underscores s = filter (\<lambda>c. c \<noteq> CHR ''_'') s"

text \<open>\<open>needle in haystack\<close> for two strings: the needle occurs as a contiguous run.\<close>

fun starts_with :: "string \<Rightarrow> string \<Rightarrow> bool" where
  "starts_with s [] = True"
| "starts_with [] (p # ps) = False"
| "starts_with (c # cs) (p # ps) = (c = p \<and> starts_with cs ps)"

fun str_contains :: "string \<Rightarrow> string \<Rightarrow> bool" where
  "str_contains [] needle = (needle = [])"
| "str_contains (c # cs) needle = (starts_with (c # cs) needle \<or> str_contains cs needle)"

subsection \<open>Operations of Python values\<close>

text \<open>\<open>v[k]\<close> with a string \<open>k\<close>: only a dictionary can be subscripted by a string.\<close>

fun py_getitem :: "json \<Rightarrow> string \<Rightarrow> error + json" where
  "py_getitem (JObj d) k = (case dict_get d k of None \<Rightarrow> Inl (KeyError k) | Some v \<Rightarrow> Inr v)"
| "py_getitem v k = Inl TypeError"

text \<open>\<open>k in v\<close> with a string \<open>k\<close>.\<close>

fun py_contains :: "json \<Rightarrow> string \<Rightarrow> error + bool" where
  "py_contains (JObj d) k = Inr (dict_contains d k)"
| "py_contains (JArr xs) k = Inr (JStr k \<in> set xs)"
| "py_contains (JStr s) k = Inr (str_contains s k)"
| "py_contains v k = Inl TypeError"

text \<open>\<open>v[k] = x\<close> with a string \<open>k\<close>: the value after the store.\<close>

fun py_setitem :: "json \<Rightarrow> string \<Rightarrow> json \<Rightarrow> error + json" where
  "py_setitem (JObj d) k x = Inr (JObj (dict_set d k x))"
| "py_setitem v k x = Inl TypeError"

text \<open>\<open>iter(v)\<close>: the elements a \<open>for\<close> loop or a generator expression visits.\<close>

fun py_iter :: "json \<Rightarrow> error + json list" where
  "py_iter (JArr xs) = Inr xs"
| "py_iter (JObj d) = Inr (map JStr (dict_keys d))"
| "py_iter (JStr s) = Inr (map (\<lambda>c. JStr [c]) s)"
| "py_iter v = Inl TypeError"

text \<open>\<open>v.get(k, None)\<close>: only a dictionary has the method.\<close>

fun py_get_or_none :: "json \<Rightarrow> string \<Rightarrow> error + json" where
  "py_get_or_none (JObj d) k = (case dict_get d k of None \<Rightarrow> Inr JNull | Some v \<Rightarrow> Inr v)"
| "py_get_or_none v k = Inl AttributeError"

text \<open>
  \<open>d.update(other)\<close> on a dictionary \<open>d\<close>. A dictionary argument is merged. A number,
  a boolean and \<open>None\<close> are not iterable; an empty string or list changes nothing; a
  non-empty string fails on its first character, which is not a pair. A non-empty list
  goes through Python's pair protocol, which can bind keys that are not strings: that
  is outside the model.
\<close>

fun dict_update_from :: "(string \<times> json) list \<Rightarrow> json \<Rightarrow> error + (string \<times> json) list" where
  "dict_update_from d (JObj kvs) = Inr (dict_update d kvs)"
| "dict_update_from d (JStr s) = (if s = [] then Inr d else Inl ValueError)"
| "dict_update_from d (JArr xs) = (if xs = [] then Inr d else Inl Unmodelled)"
| "dict_update_from d v = Inl TypeError"

section \<open>The HTTP session and what lies outside the library\<close>

text \<open>
  A request as \<open>requests.Session\<close> sends it: the verb, the session object that sends
  it, the URL, the \<open>json=\<close> payload and the \<open>If-Match\<close> header, when given.
\<close>

datatype verb = GET | PUT | POST | DELETE

record request =
  verb :: verb
  sess :: nat
  target :: string
  payload :: "json option"
  if_match :: "json option"

record http_response =
  status_code :: int
  content :: string

text \<open>
  An Entity subclass made by \<open>spawn_subclass\<close>: \<open>cid\<close> is the identity of the class
  object, \<open>server\<close> the reference of the Client that owns it.
\<close>

record variant =
  cid :: nat
  name :: string
  link :: json
  server :: nat

text \<open>A Client object; \<open>entities\<close> is \<open>None\<close> until \<open>__init__\<close> has bound it.\<close>

record client =
  session :: nat
  url :: string
  entities :: "(string \<times> variant) list option"

text \<open>
  The state a run threads: the requests sent so far (oldest first), the Client objects
  by reference, and the next free object reference.
\<close>

record world =
  sent :: "request list"
  clients :: "nat \<Rightarrow> client option"
  next_ref :: nat

text \<open>
  What the library calls and does not define: \<open>json.loads\<close> (\<open>None\<close> when the text
  is not JSON), \<open>json.dumps\<close>, \<open>repr\<close>, and the remote server, which answers a
  request in view of all earlier requests, or does not answer (\<open>None\<close>: the transport
  raises).
\<close>

record env =
  json_loads :: "string \<Rightarrow> json option"
  json_dumps :: "json \<Rightarrow> string"
  py_repr :: "json \<Rightarrow> string"
  respond :: "request list \<Rightarrow> request \<Rightarrow> http_response option"

type_synonym 'a io = "world \<Rightarrow> (error + 'a) \<times> world"

definition return_io :: "'a \<Rightarrow> 'a io" where
  "return_io x w = (Inr x, w)"

definition raise_io :: "error \<Rightarrow> 'a io" where
  "raise_io e w = (Inl e, w)"

definition lift_io :: "error + 'a \<Rightarrow> 'a io" where
  "lift_io r w = (r, w)"

definition bind_io :: "'a io \<Rightarrow> ('a \<Rightarrow> 'b io) \<Rightarrow> 'b io" where
  "bind_io m f w = (case m w of (Inl e, w') \<Rightarrow> (Inl e, w') | (Inr x, w') \<Rightarrow> f x w')"

definition bind_err :: "error + 'a \<Rightarrow> ('a \<Rightarrow> error + 'b) \<Rightarrow> error + 'b" where
  "bind_err r f = (case r of Inl e \<Rightarrow> Inl e | Inr x \<Rightarrow> f x)"

text \<open>Sending a request records it, whether or not the server answers.\<close>

definition session_request :: "env \<Rightarrow> request \<Rightarrow> http_response io" where
  "session_request E req w =
     (case respond E (sent w) req of
        None \<Rightarrow> (Inl RequestException, w\<lparr>sent := sent w @ [req]\<rparr>)
      | Some r \<Rightarrow> (Inr r, w\<lparr>sent := sent w @ [req]\<rparr>))"

definition session_get :: "env \<Rightarrow> nat \<Rightarrow> string \<Rightarrow> http_response io" where
  "session_get E s u =
     session_request E \<lparr>verb = GET, sess = s, target = u, payload = None, if_match = None\<rparr>"

definition session_put :: "env \<Rightarrow> nat \<Rightarrow> string \<Rightarrow> json \<Rightarrow> json option \<Rightarrow> http_response io" where
  "session_put E s u body header =
     session_request E \<lparr>verb = PUT, sess = s, target = u, payload = Some body, if_match = header\<rparr>"

definition session_post :: "env \<Rightarrow> nat \<Rightarrow> string \<Rightarrow> json \<Rightarrow> http_response io" where
  "session_post E s u body =
     session_request E \<lparr>verb = POST, sess = s, target = u, payload = Some body, if_match = None\<rparr>"

definition session_delete :: "env \<Rightarrow> nat \<Rightarrow> string \<Rightarrow> json option \<Rightarrow> http_response io" where
  "session_delete E s u header =
     session_request E \<lparr>verb = DELETE, sess = s, target = u, payload = None, if_match = header\<rparr>"

text \<open>\<open>Response.raise_for_status()\<close> raises for a status from 400 to 599.\<close>

definition raise_for_status :: "http_response \<Rightarrow> error + unit" where
  "raise_for_status r =
     (if 400 \<le> status_code r \<and> status_code r < 600 then Inl (HTTPError (status_code r))
      else Inr ())"

text \<open>\<open>Response.text\<close> decodes the body; an ASCII body is its own text.\<close>

definition response_text :: "http_response \<Rightarrow> string" where
  "response_text r = content r"

text \<open>\<open>'{}'.format(v)\<close>: a string as it is, any other value by its \<open>repr\<close>.\<close>

definition py_format :: "env \<Rightarrow> json \<Rightarrow> string" where
  "py_format E v = (case v of JStr s \<Rightarrow> s | _ \<Rightarrow> py_repr E v)"

text \<open>\<open>'/'.join((base, route))\<close>: both items must be strings.\<close>

definition url_join :: "string \<Rightarrow> json \<Rightarrow> error + string" where
  "url_join base route = (case route of JStr r \<Rightarrow> Inr (base @ ''/'' @ r) | _ \<Rightarrow> Inl TypeError)"

section \<open>The decorator\<close>

text \<open>
  \<open>validate_and_jsonify(func)\<close>: call the method, raise on an error status, decode the
  body. (The debug log line has no effect on the result.)
\<close>

definition validate_and_jsonify :: "env \<Rightarrow> ('a \<Rightarrow> http_response io) \<Rightarrow> 'a \<Rightarrow> json io" where
  "validate_and_jsonify E func args =
     bind_io (func args) (\<lambda>http_response.
       case raise_for_status http_response of
         Inl e \<Rightarrow> raise_io e
       | Inr _ \<Rightarrow>
           (case json_loads E (response_text http_response) of
              None \<Rightarrow> raise_io JSONDecodeError
            | Some v \<Rightarrow> return_io v))"

section \<open>Client: the verbs\<close>

text \<open>\<open>self\<close> is a reference; the object behind it is read from the state.\<close>

definition the_client :: "nat \<Rightarrow> client io" where
  "the_client self w =
     (case clients w self of None \<Rightarrow> (Inl Unmodelled, w) | Some c \<Rightarrow> (Inr c, w))"

definition Client_validate :: "http_response \<Rightarrow> error + unit" where
  "Client_validate response = raise_for_status response"

text \<open>The bodies of \<open>get\<close>, \<open>put\<close>, \<open>post\<close> and \<open>delete\<close>, before decoration.\<close>

definition Client_get_undecorated :: "env \<Rightarrow> nat \<times> json \<Rightarrow> http_response io" where
  "Client_get_undecorated E = (\<lambda>(self, route).
     bind_io (the_client self) (\<lambda>c.
     bind_io (lift_io (url_join (url c) route)) (\<lambda>u.
       session_get E (session c) u)))"

definition Client_put_undecorated :: "env \<Rightarrow> nat \<times> json \<times> json \<times> json \<Rightarrow> http_response io" where
  "Client_put_undecorated E = (\<lambda>(self, route, json, etag).
     bind_io (the_client self) (\<lambda>c.
       if etag \<noteq> JNull then
         bind_io (lift_io (url_join (url c) route)) (\<lambda>u.
           session_put E (session c) u json (Some etag))
       else
         bind_io (lift_io (url_join (url c) route)) (\<lambda>u.
           session_put E (session c) u json None)))"

definition Client_post_undecorated :: "env \<Rightarrow> nat \<times> json \<times> json \<Rightarrow> http_response io" where
  "Client_post_undecorated E = (\<lambda>(self, route, json).
     bind_io (the_client self) (\<lambda>c.
     bind_io (lift_io (url_join (url c) route)) (\<lambda>u.
       session_post E (session c) u json)))"

text \<open>
  \<open>delete\<close> sends a GET and then a DELETE, and builds a fresh \<open>Response\<close> with the
  status of the DELETE and the body of the GET.
\<close>

definition Client_delete_undecorated :: "env \<Rightarrow> nat \<times> json \<times> json \<Rightarrow> http_response io" where
  "Client_delete_undecorated E = (\<lambda>(self, route, etag).
     bind_io (the_client self) (\<lambda>c.
     bind_io (lift_io (url_join (url c) route)) (\<lambda>u.
     bind_io (session_get E (session c) u) (\<lambda>response.
     bind_io
       (if etag \<noteq> JNull then
          bind_io (lift_io (url_join (url c) route)) (\<lambda>u'.
            session_delete E (session c) u' (Some etag))
        else
          bind_io (lift_io (url_join (url c) route)) (\<lambda>u'.
            session_delete E (session c) u' None))
       (\<lambda>r. return_io \<lparr>status_code = status_code r, content = content response\<rparr>)))))"

definition Client_get :: "env \<Rightarrow> nat \<times> json \<Rightarrow> json io" where
  "Client_get E = validate_and_jsonify E (Client_get_undecorated E)"

definition Client_put :: "env \<Rightarrow> nat \<times> json \<times> json \<times> json \<Rightarrow> json io" where
  "Client_put E = validate_and_jsonify E (Client_put_undecorated E)"

definition Client_post :: "env \<Rightarrow> nat \<times> json \<times> json \<Rightarrow> json io" where
  "Client_post E = validate_and_jsonify E (Client_post_undecorated E)"

definition Client_delete :: "env \<Rightarrow> nat \<times> json \<times> json \<Rightarrow> json io" where
  "Client_delete E = validate_and_jsonify E (Client_delete_undecorated E)"

section \<open>Entity\<close>

text \<open>An instance: its class and its \<open>__dict__\<close>.\<close>

record entity =
  cls :: variant
  idict :: "(string \<times> json) list"

text \<open>What reading an attribute can give.\<close>

datatype attr_value =
    Value json
  | Object nat
  | Method string
  | Class variant
  | Entities "(string \<times> variant) list"

text \<open>
  \<open>spawn_subclass\<close>: \<open>type(str(title), (cls,), {'server': server, 'link': link})\<close>
  makes a new class object.
\<close>

definition Entity_spawn_subclass :: "string \<Rightarrow> json \<Rightarrow> nat \<Rightarrow> world \<Rightarrow> variant \<times> world" where
  "Entity_spawn_subclass title link' server' w =
     (\<lparr>cid = next_ref w, name = title, link = link', server = server'\<rparr>,
      w\<lparr>next_ref := next_ref w + 1\<rparr>)"

text \<open>
  \<open>self.fields\<close>: the instance's own \<open>__dict__\<close> is read first. The class binds no
  such name, so without an entry the lookup falls to \<open>__getattr__\<close>, which reads
  \<open>self.fields\<close> again, without end.
\<close>

definition Entity_fields :: "entity \<Rightarrow> error + json" where
  "Entity_fields self =
     (case dict_get (idict self) ''fields'' of None \<Rightarrow> Inl RecursionError | Some f \<Rightarrow> Inr f)"

text \<open>\<open>__getattr__\<close>, called when ordinary lookup finds nothing.\<close>

definition Entity_getattr :: "entity \<Rightarrow> string \<Rightarrow> error + json" where
  "Entity_getattr self attr =
     bind_err (Entity_fields self) (\<lambda>fields.
       case py_getitem fields attr of
         Inl (KeyError k) \<Rightarrow> Inl AttributeError
       | Inl e \<Rightarrow> Inl e
       | Inr v \<Rightarrow> Inr v)"

text \<open>The names the class body of \<open>Entity\<close> binds, special methods apart.\<close>

definition Entity_methods :: "string list" where
  "Entity_methods =
     [''spawn_subclass'', ''list'', ''get_by_id'', ''where'', ''embedded'', ''first_where'',
      ''regular_fields'', ''remove'', ''create'', ''save'']"

text \<open>
  Reading \<open>self.attr\<close>: the instance's \<open>__dict__\<close>, then the class (\<open>server\<close> and
  \<open>link\<close> of the variant, the methods of \<open>Entity\<close>), then \<open>__getattr__\<close>.
\<close>

definition Entity_attribute :: "entity \<Rightarrow> string \<Rightarrow> error + attr_value" where
  "Entity_attribute self attr =
     (if is_dunder attr then Inl Unmodelled
      else case dict_get (idict self) attr of
        Some v \<Rightarrow> Inr (Value v)
      | None \<Rightarrow>
          if attr = ''server'' then Inr (Object (server (cls self)))
          else if attr = ''link'' then Inr (Value (link (cls self)))
          else if attr \<in> set Entity_methods then Inr (Method attr)
          else bind_err (Entity_getattr self attr) (\<lambda>v. Inr (Value v)))"

text \<open>\<open>object.__setattr__(self, attr, val)\<close> binds the name in \<open>__dict__\<close>.\<close>

definition object_setattr :: "entity \<Rightarrow> string \<Rightarrow> json \<Rightarrow> error + entity" where
  "object_setattr self attr val =
     (if is_dunder attr then Inl Unmodelled
      else Inr (self\<lparr>idict := dict_set (idict self) attr val\<rparr>))"

text \<open>\<open>__setattr__\<close>, called for every assignment \<open>self.attr = val\<close>.\<close>

definition Entity_setattr :: "entity \<Rightarrow> string \<Rightarrow> json \<Rightarrow> error + entity" where
  "Entity_setattr self attr val =
     (if dict_contains (idict self) ''initialized'' then
        bind_err (Entity_fields self) (\<lambda>fields.
        bind_err (py_contains fields attr) (\<lambda>present.
          if present then
            bind_err (py_setitem fields attr val) (\<lambda>fields'.
              Inr (self\<lparr>idict := dict_set (idict self) ''fields'' fields'\<rparr>))
          else object_setattr self attr val))
      else object_setattr self attr val)"

text \<open>\<open>__init__(self, **kwargs)\<close> on a new instance, whose \<open>__dict__\<close> is empty.\<close>

definition Entity_init :: "variant \<Rightarrow> (string \<times> json) list \<Rightarrow> error + entity" where
  "Entity_init c kwargs =
     bind_err (Entity_setattr \<lparr>cls = c, idict = []\<rparr> ''fields'' (JObj kwargs)) (\<lambda>self.
       Entity_setattr self ''initialized'' (JBool True))"

text \<open>
  \<open>cls(**row)\<close>: the argument must be a mapping, and a key \<open>self\<close> collides with
  the first parameter of \<open>__init__\<close>.
\<close>

definition Entity_call :: "variant \<Rightarrow> json \<Rightarrow> error + entity" where
  "Entity_call c row =
     (case row of
        JObj kwargs \<Rightarrow> if dict_contains kwargs ''self'' then Inl TypeError else Entity_init c kwargs
      | _ \<Rightarrow> Inl TypeError)"

definition Entity_get_by_id :: "env \<Rightarrow> variant \<Rightarrow> json \<Rightarrow> json \<Rightarrow> entity io" where
  "Entity_get_by_id E c ident options =
     (if link c = JStr ''measurement'' then raise_io AssertionError
      else
        let link' = (if options = JNull then py_format E (link c) @ ''/'' @ py_format E ident
                     else py_format E (link c) @ ''/'' @ py_format E ident @ ''?''
                            @ py_format E options)
        in bind_io (Client_get E (server c, JStr link')) (\<lambda>row. lift_io (Entity_call c row)))"

text \<open>
  A generator expression \<open>(cls(**result) for result in rows)\<close>: the class and the rows
  not yet visited. \<open>next\<close> builds one instance; a generator that has raised is spent.
\<close>

datatype generator = Generator variant "json list"

fun generator_next :: "generator \<Rightarrow> (error + entity) \<times> generator" where
  "generator_next (Generator c []) = (Inl StopIteration, Generator c [])"
| "generator_next (Generator c (result # rest)) =
     (case Entity_call c result of
        Inl e \<Rightarrow> (Inl e, Generator c [])
      | Inr inst \<Rightarrow> (Inr inst, Generator c rest))"

text \<open>
  \<open>where\<close> and \<open>embedded\<close> are plain functions: the GET, the subscript \<open>['_items']\<close>
  and \<open>iter\<close> of the rows run when they are called; only the instances are built on
  demand.
\<close>

definition Entity_where :: "env \<Rightarrow> variant \<Rightarrow> json \<Rightarrow> (string \<times> json) list \<Rightarrow> generator io" where
  "Entity_where E c options kwargs =
     (let link0 = py_format E (link c) @ ''?where='' @ json_dumps E (JObj kwargs);
          link' = (if options \<noteq> JNull then link0 @ ''&'' @ py_format E options else link0)
      in bind_io (Client_get E (server c, JStr link')) (\<lambda>results.
         lift_io (bind_err (py_getitem results ''_items'') (\<lambda>items.
                  bind_err (py_iter items) (\<lambda>rows. Inr (Generator c rows))))))"

definition Entity_embedded :: "env \<Rightarrow> variant \<Rightarrow> json \<Rightarrow> (string \<times> json) list \<Rightarrow> generator io" where
  "Entity_embedded E c options kwargs =
     (let link0 = py_format E (link c) @ ''?embedded='' @ json_dumps E (JObj kwargs);
          link' = (if options \<noteq> JNull then link0 @ ''&'' @ py_format E options else link0)
      in bind_io (Client_get E (server c, JStr link')) (\<lambda>results.
         lift_io (bind_err (py_getitem results ''_items'') (\<lambda>items.
                  bind_err (py_iter items) (\<lambda>rows. Inr (Generator c rows))))))"

definition Entity_regular_fields :: "entity \<Rightarrow> error + (string \<times> json) list" where
  "Entity_regular_fields self =
     bind_err (Entity_fields self) (\<lambda>fields.
       case fields of
         JObj d \<Rightarrow> Inr (filter (\<lambda>(k, v). \<not> startswith_underscore k) d)
       | _ \<Rightarrow> Inl AttributeError)"

text \<open>
  \<open>self.server\<close> as the target of a verb call: a value bound in the instance's own
  \<open>__dict__\<close> hides the class's and has no verb method. \<open>self.link\<close> likewise reads
  the instance first. Calling \<open>self.regular_fields()\<close> fails when the instance binds
  that name to a value.
\<close>

definition Entity_server :: "entity \<Rightarrow> error + nat" where
  "Entity_server self =
     (case dict_get (idict self) ''server'' of
        Some v \<Rightarrow> Inl AttributeError
      | None \<Rightarrow> Inr (server (cls self)))"

definition Entity_link :: "entity \<Rightarrow> json" where
  "Entity_link self =
     (case dict_get (idict self) ''link'' of Some v \<Rightarrow> v | None \<Rightarrow> link (cls self))"

definition call_regular_fields :: "entity \<Rightarrow> error + (string \<times> json) list" where
  "call_regular_fields self =
     (if dict_contains (idict self) ''regular_fields'' then Inl TypeError
      else Entity_regular_fields self)"

text \<open>
  The instance methods return the decoded response, the instance as the call leaves it,
  and the state.
\<close>

definition Entity_remove :: "env \<Rightarrow> entity \<Rightarrow> world \<Rightarrow> (error + json) \<times> entity \<times> world" where
  "Entity_remove E self w =
     (case bind_err (Entity_server self) (\<lambda>srv.
           bind_err (Entity_fields self) (\<lambda>fields.
           bind_err (py_getitem fields ''_id'') (\<lambda>ident.
           bind_err (Entity_fields self) (\<lambda>fields'.
           bind_err (py_get_or_none fields' ''_etag'') (\<lambda>etag.
             Inr (srv, JStr (py_format E (Entity_link self) @ ''/'' @ py_format E ident), etag))))))
      of Inl e \<Rightarrow> (Inl e, self, w)
       | Inr args \<Rightarrow> (case Client_delete E args w of (response, w') \<Rightarrow> (response, self, w')))"

definition Entity_create :: "env \<Rightarrow> entity \<Rightarrow> world \<Rightarrow> (error + json) \<times> entity \<times> world" where
  "Entity_create E self w =
     (case bind_err (Entity_server self) (\<lambda>srv.
           bind_err (Entity_fields self) (\<lambda>fields.
             Inr (srv, Entity_link self, fields)))
      of Inl e \<Rightarrow> (Inl e, self, w)
       | Inr args \<Rightarrow>
           (case Client_post E args w of
              (Inl e, w') \<Rightarrow> (Inl e, self, w')
            | (Inr response, w') \<Rightarrow>
                (case Entity_fields self of
                   Inl e \<Rightarrow> (Inl e, self, w')
                 | Inr (JObj d) \<Rightarrow>
                     (case dict_update_from d response of
                        Inl e \<Rightarrow> (Inl e, self, w')
                      | Inr d' \<Rightarrow>
                          (Inr response,
                           self\<lparr>idict := dict_set (idict self) ''fields'' (JObj d')\<rparr>, w'))
                 | Inr _ \<Rightarrow> (Inl AttributeError, self, w'))))"

definition Entity_save :: "env \<Rightarrow> entity \<Rightarrow> world \<Rightarrow> (error + json) \<times> entity \<times> world" where
  "Entity_save E self w =
     (case bind_err (Entity_server self) (\<lambda>srv.
           bind_err (Entity_fields self) (\<lambda>fields.
           bind_err (py_getitem fields ''_id'') (\<lambda>ident.
           bind_err (call_regular_fields self) (\<lambda>regular.
           bind_err (Entity_fields self) (\<lambda>fields'.
           bind_err (py_get_or_none fields' ''_etag'') (\<lambda>etag.
             Inr (srv, JStr (py_format E (Entity_link self) @ ''/'' @ py_format E ident),
                  JObj regular, etag)))))))
      of Inl e \<Rightarrow> (Inl e, self, w)
       | Inr args \<Rightarrow> (case Client_put E args w of (response, w') \<Rightarrow> (response, self, w')))"

section \<open>Client: discovery\<close>

text \<open>
  One step of the first loop of \<open>_spawn_entities\<close>:
  \<open>response['_links']['child'].append({'title': entry['title'], 'href': entry['href']})\<close>.
  The list is extended in place, so the new list is stored back along the path it was
  read from.
\<close>

definition append_child :: "json \<Rightarrow> json \<Rightarrow> error + json" where
  "append_child response entry =
     bind_err (py_getitem response ''_links'') (\<lambda>links.
     bind_err (py_getitem links ''child'') (\<lambda>child.
       case child of
         JArr xs \<Rightarrow>
           bind_err (py_getitem entry ''title'') (\<lambda>title.
           bind_err (py_getitem entry ''href'') (\<lambda>href.
           bind_err (py_setitem links ''child''
                       (JArr (xs @ [JObj [(''title'', title), (''href'', href)]]))) (\<lambda>links'.
             py_setitem response ''_links'' links')))
       | _ \<Rightarrow> Inl AttributeError))"

fun insert_entries :: "json \<Rightarrow> json list \<Rightarrow> error + json" where
  "insert_entries response [] = Inr response"
| "insert_entries response (entry # rest) =
     (case append_child response entry of
        Inl e \<Rightarrow> Inl e
      | Inr response' \<Rightarrow> insert_entries response' rest)"

text \<open>
  The second loop: every child's title is title-cased and stripped of underscores, a
  class is made under that name, and \<open>entities[title]\<close> is bound to it.
\<close>

fun spawn_children ::
  "nat \<Rightarrow> json list \<Rightarrow> (string \<times> variant) list \<Rightarrow> world \<Rightarrow> (error + (string \<times> variant) list) \<times> world"
where
  "spawn_children self [] entities' w = (Inr entities', w)"
| "spawn_children self (child # rest) entities' w =
     (case py_getitem child ''title'' of
        Inl e \<Rightarrow> (Inl e, w)
      | Inr (JStr s) \<Rightarrow>
          (let title = remove_underscores (str_title s) in
           case py_getitem child ''href'' of
             Inl e \<Rightarrow> (Inl e, w)
           | Inr href \<Rightarrow>
               (case Entity_spawn_subclass title href self w of
                  (v, w') \<Rightarrow> spawn_children self rest (dict_set entities' title v) w'))
      | Inr _ \<Rightarrow> (Inl AttributeError, w))"

definition Client_spawn_entities ::
  "env \<Rightarrow> nat \<Rightarrow> json list option \<Rightarrow> (string \<times> variant) list io"
where
  "Client_spawn_entities E self insert' =
     bind_io (the_client self) (\<lambda>c.
     bind_io (session_get E (session c) (url c)) (\<lambda>http_response.
     bind_io (lift_io (Client_validate http_response)) (\<lambda>_.
       case json_loads E (response_text http_response) of
         None \<Rightarrow> raise_io JSONDecodeError
       | Some response \<Rightarrow>
           bind_io (lift_io (case insert' of
                               None \<Rightarrow> Inr response
                             | Some entries \<Rightarrow> insert_entries response entries)) (\<lambda>response'.
           bind_io (lift_io (bind_err (py_getitem response' ''_links'') (\<lambda>links.
                             bind_err (py_getitem links ''child'') py_iter))) (\<lambda>children.
             spawn_children self children [])))))"

definition extra_entities :: "json list" where
  "extra_entities = [JObj [(''title'', JStr ''Measurement''), (''href'', JStr ''measurement'')]]"

text \<open>
  \<open>Client(url, session=None)\<close>: the new object gets a reference, a session of its own
  when none is given, and its entities from discovery. The result is the reference.
\<close>

definition Client_init :: "env \<Rightarrow> string \<Rightarrow> nat option \<Rightarrow> nat io" where
  "Client_init E url' session' w =
     (let self = next_ref w;
          w1 = w\<lparr>next_ref := next_ref w + 1\<rparr>;
          (s, w2) = (case session' of
                       None \<Rightarrow> (next_ref w1, w1\<lparr>next_ref := next_ref w1 + 1\<rparr>)
                     | Some s' \<Rightarrow> (s', w1));
          w3 = w2\<lparr>clients := (clients w2)
                  (self \<mapsto> \<lparr>session = s, url = url', entities = None\<rparr>)\<rparr>
      in case Client_spawn_entities E self (Some extra_entities) w3 of
           (Inl e, w4) \<Rightarrow> (Inl e, w4)
         | (Inr found, w4) \<Rightarrow>
             (Inr self,
              w4\<lparr>clients := (clients w4)
                    (self \<mapsto> \<lparr>session = s, url = url', entities = Some found\<rparr>)\<rparr>))"

text \<open>
  \<open>__getattr__\<close> of the Client. Before \<open>entities\<close> is bound, reading it re-enters
  \<open>__getattr__\<close> without end.
\<close>

definition Client_getattr :: "nat \<Rightarrow> string \<Rightarrow> variant io" where
  "Client_getattr self attr =
     bind_io (the_client self) (\<lambda>c.
       case entities c of
         None \<Rightarrow> raise_io RecursionError
       | Some found \<Rightarrow>
           (case dict_get found attr of
              None \<Rightarrow> raise_io AttributeError
            | Some v \<Rightarrow> return_io v))"

text \<open>The names the class body of \<open>Client\<close> binds, special methods apart.\<close>

definition Client_methods :: "string list" where
  "Client_methods =
     [''refresh_token'', ''_validate'', ''_spawn_entities'', ''get'', ''put'', ''post'',
      ''delete'']"

text \<open>
  Reading \<open>client.attr\<close>: the attributes \<open>__init__\<close> binds on the instance, then the
  methods of the class, then \<open>__getattr__\<close>.
\<close>

definition Client_attribute :: "nat \<Rightarrow> string \<Rightarrow> attr_value io" where
  "Client_attribute self attr =
     (if is_dunder attr then raise_io Unmodelled
      else bind_io (the_client self) (\<lambda>c.
        if attr = ''session'' then return_io (Object (session c))
        else if attr = ''url'' then return_io (Value (JStr (url c)))
        else if attr = ''entities'' \<and> entities c \<noteq> None
          then return_io (Entities (case entities c of Some found \<Rightarrow> found | None \<Rightarrow> []))
        else if attr \<in> set Client_methods then return_io (Method attr)
        else bind_io (Client_getattr self attr) (\<lambda>v. return_io (Class v))))"

section \<open>Vocabulary of the statements\<close>

text \<open>
  The name and the link one entry of \<open>_links.child\<close> gives, as the second loop of
  \<open>_spawn_entities\<close> reads them; \<open>None\<close> where the loop would raise.
\<close>

definition entry_name :: "json \<Rightarrow> string option" where
  "entry_name child =
     (case py_getitem child ''title'' of
        Inr (JStr s) \<Rightarrow> Some (remove_underscores (str_title s))
      | _ \<Rightarrow> None)"

definition entry_href :: "json \<Rightarrow> json option" where
  "entry_href child = (case py_getitem child ''href'' of Inr h \<Rightarrow> Some h | Inl e \<Rightarrow> None)"

text \<open>The instance \<open>cls(**row)\<close> builds from a row with the entries \<open>d\<close>.\<close>

definition instance_of :: "variant \<Rightarrow> (string \<times> json) list \<Rightarrow> entity" where
  "instance_of c d = \<lparr>cls = c, idict = [(''fields'', JObj d), (''initialized'', JBool True)]\<rparr>"

text \<open>\<open>list(g)\<close>: \<open>next\<close> is called until the generator stops or raises.\<close>

fun pending :: "generator \<Rightarrow> json list" where
  "pending (Generator c rows) = rows"

function generator_list :: "generator \<Rightarrow> error + entity list" where
  "generator_list g =
     (case generator_next g of
        (Inr inst, g') \<Rightarrow> bind_err (generator_list g') (\<lambda>more. Inr (inst # more))
      | (Inl e, g') \<Rightarrow> if e = StopIteration then Inr [] else Inl e)"
  by pat_completeness auto
termination
proof (relation "measure (\<lambda>g. length (pending g))")
  show "wf (measure (\<lambda>g. length (pending g)))"
    by simp
next
  fix g :: generator and x :: "error + entity" and g' :: generator and inst :: entity
  assume "(x, g') = generator_next g" and "x = Inr inst"
  then show "(g', g) \<in> measure (\<lambda>g. length (pending g))"
    by (cases g rule: generator_next.cases) (auto split: sum.splits)
qed

text \<open>
  The query both \<open>where\<close> and \<open>embedded\<close> are described to run, following the
  description: one GET to \<open>{link}?<param>={JSON filters}[&options]\<close>, the \<open>_items\<close>
  of the decoded answer, and a lazy sequence over its rows.
\<close>

definition query_by :: "env \<Rightarrow> string \<Rightarrow> variant \<Rightarrow> json \<Rightarrow> (string \<times> json) list \<Rightarrow> generator io" where
  "query_by E param c options filters =
     bind_io (Client_get E (server c,
                JStr (py_format E (link c) @ ''?'' @ param @ ''='' @ json_dumps E (JObj filters)
                      @ (if options = JNull then [] else ''&'' @ py_format E options))))
       (\<lambda>results.
          case py_getitem results ''_items'' of
            Inl e \<Rightarrow> raise_io e
          | Inr items \<Rightarrow>
              (case py_iter items of
                 Inl e \<Rightarrow> raise_io e
               | Inr rows \<Rightarrow> return_io (Generator c rows)))"

text \<open>
  What a decorated verb makes of the server's answer: the transport's failure, the error
  status, the undecodable body, or the decoded body.
\<close>

definition outcome :: "env \<Rightarrow> http_response option \<Rightarrow> error + json" where
  "outcome E answer =
     (case answer of
        None \<Rightarrow> Inl RequestException
      | Some r \<Rightarrow>
          if 400 \<le> status_code r \<and> status_code r < 600 then Inl (HTTPError (status_code r))
          else (case json_loads E (content r) of
                  None \<Rightarrow> Inl JSONDecodeError
                | Some v \<Rightarrow> Inr v))"

text \<open>The one GET a query sends: \<open>{url}/{link}?<param>={JSON filters}[&options]\<close>.\<close>

definition query_request ::
  "env \<Rightarrow> client \<Rightarrow> variant \<Rightarrow> string \<Rightarrow> json \<Rightarrow> (string \<times> json) list \<Rightarrow> request"
where
  "query_request E cl c param options filters =
     \<lparr>verb = GET, sess = session cl,
      target = url cl @ ''/'' @ py_format E (link c) @ ''?'' @ param @ ''=''
                 @ json_dumps E (JObj filters)
                 @ (if options = JNull then [] else ''&'' @ py_format E options),
      payload = None, if_match = None\<rparr>"

text \<open>
  Entry \<open>j\<close> of the merged list is the last one whose normalized title is \<open>n\<close>.
\<close>

definition last_named :: "json list \<Rightarrow> nat \<Rightarrow> string \<Rightarrow> bool" where
  "last_named merged j n =
     (j < length merged \<and> entry_name (merged ! j) = Some n
      \<and> Some n \<notin> set (map entry_name (drop (Suc j) merged)))"

section \<open>A small server to run the definitions on\<close>

definition demo_catalogue :: json where
  "demo_catalogue =
     JObj [(''_links'', JObj [(''child'', JArr
       [JObj [(''title'', JStr ''book''), (''href'', JStr ''book'')],
        JObj [(''title'', JStr ''measurement''), (''href'', JStr ''sensor_log'')]])])]"

definition demo_items :: json where
  "demo_items =
     JObj [(''_items'', JArr
       [JObj [(''_id'', JNum 7), (''status'', JStr ''active'')],
        JObj [(''_id'', JNum 8), (''status'', JStr ''active'')]])]"

definition demo_loads :: "string \<Rightarrow> json option" where
  "demo_loads s =
     (if s = ''catalogue'' then Some demo_catalogue
      else if s = ''items'' then Some demo_items
      else if s = ''row'' then Some (JObj [(''_id'', JNum 7), (''_etag'', JStr ''t2'')])
      else if s = ''problem'' then Some (JObj [(''_status'', JStr ''ERR'')])
      else None)"

definition demo_respond :: "request list \<Rightarrow> request \<Rightarrow> http_response option" where
  "demo_respond history req =
     (case verb req of
        GET \<Rightarrow>
          if target req = ''api'' then Some \<lparr>status_code = 200, content = ''catalogue''\<rparr>
          else if target req = ''api/book/7''
            then Some \<lparr>status_code = 404, content = ''problem''\<rparr>
          else if target req = ''api/measurement?where=q''
                  \<or> target req = ''api/measurement?embedded=q''
            then Some \<lparr>status_code = 200, content = ''items''\<rparr>
          else Some \<lparr>status_code = 500, content = ''problem''\<rparr>
      | PUT \<Rightarrow> Some \<lparr>status_code = 200, content = ''row''\<rparr>
      | POST \<Rightarrow> Some \<lparr>status_code = 201, content = ''row''\<rparr>
      | DELETE \<Rightarrow> Some \<lparr>status_code = 204, content = []\<rparr>)"

definition demo_repr :: "json \<Rightarrow> string" where
  "demo_repr v = (if v = JNum 7 then ''7'' else ''?'')"

definition demo_env :: env where
  "demo_env =
     \<lparr>json_loads = demo_loads, json_dumps = (\<lambda>v. ''q''), py_repr = demo_repr,
      respond = demo_respond\<rparr>"

definition demo_world :: world where
  "demo_world = \<lparr>sent = [], clients = (\<lambda>r. None), next_ref = 0\<rparr>"

definition demo_book :: variant where
  "demo_book = \<lparr>cid = 2, name = ''Book'', link = JStr ''book'', server = 0\<rparr>"

definition demo_measurement :: variant where
  "demo_measurement =
     \<lparr>cid = 4, name = ''Measurement'', link = JStr ''measurement'', server = 0\<rparr>"

definition demo_client :: client where
  "demo_client =
     \<lparr>session = 1, url = ''api'',
      entities = Some [(''Book'', demo_book), (''Measurement'', demo_measurement)]\<rparr>"

definition demo_connected :: world where
  "demo_connected =
     \<lparr>sent = [\<lparr>verb = GET, sess = 1, target = ''api'', payload = None, if_match = None\<rparr>],
      clients = (\<lambda>r. if r = 0 then Some demo_client else None),
      next_ref = 5\<rparr>"

section \<open>Basic facts\<close>

declare generator_list.simps [simp del]

lemmas io_defs = bind_io_def return_io_def raise_io_def lift_io_def bind_err_def

lemma demo_facts:
  "clients demo_connected 0 = Some demo_client"
  "sent demo_connected =
     [\<lparr>verb = GET, sess = 1, target = ''api'', payload = None, if_match = None\<rparr>]"
  "session demo_client = 1"
  "url demo_client = ''api''"
  "respond demo_env = demo_respond"
  "json_loads demo_env = demo_loads"
  "json_dumps demo_env = (\<lambda>v. ''q'')"
  "py_repr demo_env = demo_repr"
  by (simp_all add: demo_connected_def demo_client_def demo_env_def)

subsection \<open>Dictionaries\<close>

lemma dict_get_dict_set:
  "dict_get (dict_set d k v) k' = (if k' = k then Some v else dict_get d k')"
  by (induction d) auto

lemma dict_set_keys:
  "map fst (dict_set d k v) = (if k \<in> set (map fst d) then map fst d else map fst d @ [k])"
  by (induction d) force+

lemma dict_set_distinct: "distinct (map fst d) \<Longrightarrow> distinct (map fst (dict_set d k v))"
  by (simp add: dict_set_keys)

lemma dict_get_None: "k \<notin> set (map fst d) \<Longrightarrow> dict_get d k = None"
  by (induction d) auto

lemma dict_get_keys: "dict_get d k \<noteq> None \<longleftrightarrow> k \<in> set (map fst d)"
  by (induction d) auto

lemma dict_get_dict_update:
  "distinct (map fst kvs) \<Longrightarrow>
   dict_get (dict_update d kvs) k = (case dict_get kvs k of Some v \<Rightarrow> Some v | None \<Rightarrow> dict_get d k)"
proof (induction kvs arbitrary: d)
  case Nil
  then show ?case by simp
next
  case (Cons p kvs)
  obtain k' v' where p: "p = (k', v')" by (cases p)
  with Cons.prems have "dict_get kvs k' = None"
    by (simp add: dict_get_None)
  with Cons p show ?case
    by (auto simp: dict_get_dict_set split: option.splits)
qed

subsection \<open>Normalized names\<close>

text \<open>
  A normalized name holds no underscore and does not begin with a small letter, so it is
  none of the names a Client binds itself.
\<close>

lemma to_upper_not_lower: "\<not> is_lower (to_upper x)"
  by (cases x) (auto simp: is_lower_def to_upper_def split: if_splits)

lemma to_upper_underscore: "to_upper x = CHR ''_'' \<Longrightarrow> \<not> is_lower x \<and> \<not> is_upper x"
  by (cases x) (auto simp: is_lower_def is_upper_def to_upper_def split: if_splits)

lemma title_head_not_lower:
  "filter (\<lambda>c. c \<noteq> CHR ''_'') (title_from False s) = c # cs \<Longrightarrow> \<not> is_lower c"
proof (induction s)
  case Nil
  then show ?case by simp
next
  case (Cons x xs)
  show ?case
  proof (cases "to_upper x = CHR ''_''")
    case True
    with Cons.prems to_upper_underscore [OF True] Cons.IH show ?thesis
      by simp
  next
    case False
    with Cons.prems have "c = to_upper x" by simp
    then show ?thesis by (simp add: to_upper_not_lower)
  qed
qed

lemma normalized_head_not_lower:
  "remove_underscores (str_title s) = c # cs \<Longrightarrow> \<not> is_lower c"
  using title_head_not_lower by (simp add: remove_underscores_def str_title_def)

lemma normalized_no_underscore: "CHR ''_'' \<notin> set (remove_underscores s)"
  by (simp add: remove_underscores_def)

lemma normalized_not_dunder: "\<not> is_dunder (remove_underscores s)"
  using normalized_no_underscore [of s]
  by (cases "remove_underscores s" rule: is_dunder.cases) auto

lemma normalized_not_ordinary:
  "remove_underscores (str_title s) \<noteq> ''session''"
  "remove_underscores (str_title s) \<noteq> ''url''"
  "remove_underscores (str_title s) \<noteq> ''entities''"
  "remove_underscores (str_title s) \<notin> set Client_methods"
proof -
  have low: "\<And>c cs. remove_underscores (str_title s) = c # cs \<Longrightarrow> \<not> is_lower c"
    by (rule normalized_head_not_lower)
  show "remove_underscores (str_title s) \<noteq> ''session''"
    using low [of "CHR ''s''" "''ession''"] by (auto simp: is_lower_def)
  show "remove_underscores (str_title s) \<noteq> ''url''"
    using low [of "CHR ''u''" "''rl''"] by (auto simp: is_lower_def)
  show "remove_underscores (str_title s) \<noteq> ''entities''"
    using low [of "CHR ''e''" "''ntities''"] by (auto simp: is_lower_def)
  show "remove_underscores (str_title s) \<notin> set Client_methods"
    using low [of "CHR ''g''" "''et''"] low [of "CHR ''p''" "''ut''"] low [of "CHR ''p''" "''ost''"]
      low [of "CHR ''d''" "''elete''"] low [of "CHR ''r''" "''efresh_token''"]
      normalized_no_underscore [of "str_title s"]
    by (auto simp: Client_methods_def is_lower_def)
qed

lemma entry_name_normalized:
  "entry_name entry = Some n \<Longrightarrow> \<exists>s. n = remove_underscores (str_title s)"
  by (auto simp: entry_name_def split: sum.splits json.splits)

subsection \<open>What each verb sends\<close>

lemma Client_get_sends:
  assumes "clients w self = Some cl"
  shows "Client_get E (self, JStr route) w =
           (outcome E (respond E (sent w)
              \<lparr>verb = GET, sess = session cl, target = url cl @ ''/'' @ route,
               payload = None, if_match = None\<rparr>),
            w\<lparr>sent := sent w @ [\<lparr>verb = GET, sess = session cl, target = url cl @ ''/'' @ route,
               payload = None, if_match = None\<rparr>]\<rparr>)"
  using assms
  by (simp add: Client_get_def validate_and_jsonify_def Client_get_undecorated_def io_defs
      the_client_def url_join_def session_get_def session_request_def outcome_def
      raise_for_status_def response_text_def split: option.splits)

lemma Client_put_sends:
  assumes "clients w self = Some cl"
  shows "Client_put E (self, JStr route, body, etag) w =
           (outcome E (respond E (sent w)
              \<lparr>verb = PUT, sess = session cl, target = url cl @ ''/'' @ route,
               payload = Some body, if_match = (if etag = JNull then None else Some etag)\<rparr>),
            w\<lparr>sent := sent w @ [\<lparr>verb = PUT, sess = session cl, target = url cl @ ''/'' @ route,
               payload = Some body, if_match = (if etag = JNull then None else Some etag)\<rparr>]\<rparr>)"
  using assms
  by (simp add: Client_put_def validate_and_jsonify_def Client_put_undecorated_def io_defs
      the_client_def url_join_def session_put_def session_request_def outcome_def
      raise_for_status_def response_text_def split: option.splits)

lemma Client_post_sends:
  assumes "clients w self = Some cl"
  shows "Client_post E (self, JStr route, body) w =
           (outcome E (respond E (sent w)
              \<lparr>verb = POST, sess = session cl, target = url cl @ ''/'' @ route,
               payload = Some body, if_match = None\<rparr>),
            w\<lparr>sent := sent w @ [\<lparr>verb = POST, sess = session cl, target = url cl @ ''/'' @ route,
               payload = Some body, if_match = None\<rparr>]\<rparr>)"
  using assms
  by (simp add: Client_post_def validate_and_jsonify_def Client_post_undecorated_def io_defs
      the_client_def url_join_def session_post_def session_request_def outcome_def
      raise_for_status_def response_text_def split: option.splits)

section \<open>Discovery\<close>

subsection \<open>The loop over the merged entries\<close>

text \<open>One round of the second loop, when it goes through.\<close>

lemma spawn_children_step:
  assumes "spawn_children self (child # rest) found w = (Inr found', w')"
  shows "\<exists>n h. entry_name child = Some n \<and> entry_href child = Some h
           \<and> spawn_children self rest
                (dict_set found n \<lparr>cid = next_ref w, name = n, link = h, server = self\<rparr>)
                (w\<lparr>next_ref := next_ref w + 1\<rparr>) = (Inr found', w')"
  using assms
  by (auto simp: entry_name_def entry_href_def Entity_spawn_subclass_def Let_def
      split: sum.splits json.splits)

lemma spawn_children_entries:
  "spawn_children self cs found w = (Inr found', w') \<Longrightarrow> child \<in> set cs \<Longrightarrow>
   \<exists>n h. entry_name child = Some n \<and> entry_href child = Some h"
proof (induction cs arbitrary: found w)
  case Nil
  then show ?case by simp
next
  case (Cons x rest)
  from spawn_children_step [OF Cons.prems(1)] obtain n h where
    x: "entry_name x = Some n" "entry_href x = Some h" and
    rest: "spawn_children self rest
       (dict_set found n \<lparr>cid = next_ref w, name = n, link = h, server = self\<rparr>)
       (w\<lparr>next_ref := next_ref w + 1\<rparr>) = (Inr found', w')"
    by blast
  show ?case
  proof (cases "child = x")
    case True
    with x show ?thesis by blast
  next
    case False
    with Cons.prems(2) have "child \<in> set rest" by simp
    from Cons.IH [OF rest this] show ?thesis .
  qed
qed

lemma spawn_children_untouched:
  "spawn_children self cs found w = (Inr found', w') \<Longrightarrow>
   \<forall>child \<in> set cs. entry_name child \<noteq> Some n \<Longrightarrow>
   dict_get found' n = dict_get found n"
proof (induction cs arbitrary: found w)
  case Nil
  then show ?case by simp
next
  case (Cons x rest)
  from spawn_children_step [OF Cons.prems(1)] obtain m h where
    x: "entry_name x = Some m" and
    rest: "spawn_children self rest
       (dict_set found m \<lparr>cid = next_ref w, name = m, link = h, server = self\<rparr>)
       (w\<lparr>next_ref := next_ref w + 1\<rparr>) = (Inr found', w')"
    by blast
  from Cons.prems(2) x have "m \<noteq> n" by auto
  moreover from Cons.prems(2) have "\<forall>child \<in> set rest. entry_name child \<noteq> Some n" by simp
  ultimately show ?case
    using Cons.IH [OF rest] by (simp add: dict_get_dict_set)
qed

lemma spawn_children_last:
  "spawn_children self cs found w = (Inr found', w') \<Longrightarrow>
   j < length cs \<Longrightarrow> entry_name (cs ! j) = Some n \<Longrightarrow> entry_href (cs ! j) = Some h \<Longrightarrow>
   \<forall>k. j < k \<and> k < length cs \<longrightarrow> entry_name (cs ! k) \<noteq> Some n \<Longrightarrow>
   dict_get found' n = Some \<lparr>cid = next_ref w + j, name = n, link = h, server = self\<rparr>"
proof (induction cs arbitrary: found w j)
  case Nil
  then show ?case by simp
next
  case (Cons x rest)
  from spawn_children_step [OF Cons.prems(1)] obtain m g where
    x: "entry_name x = Some m" "entry_href x = Some g" and
    rest: "spawn_children self rest
       (dict_set found m \<lparr>cid = next_ref w, name = m, link = g, server = self\<rparr>)
       (w\<lparr>next_ref := next_ref w + 1\<rparr>) = (Inr found', w')"
    by blast
  show ?case
  proof (cases j)
    case 0
    with Cons.prems x have same: "m = n" "g = h" by simp_all
    have "\<forall>child \<in> set rest. entry_name child \<noteq> Some n"
    proof
      fix child assume "child \<in> set rest"
      then obtain i where "i < length rest" "rest ! i = child"
        by (auto simp: in_set_conv_nth)
      with Cons.prems(5) [rule_format, of "Suc i"] 0 show "entry_name child \<noteq> Some n"
        by simp
    qed
    from spawn_children_untouched [OF rest this] same 0 show ?thesis
      by (simp add: dict_get_dict_set)
  next
    case (Suc i)
    with Cons.prems have i: "i < length rest" "entry_name (rest ! i) = Some n"
      "entry_href (rest ! i) = Some h" by simp_all
    have later: "\<forall>k. i < k \<and> k < length rest \<longrightarrow> entry_name (rest ! k) \<noteq> Some n"
    proof (intro allI impI)
      fix k assume "i < k \<and> k < length rest"
      with Cons.prems(5) [rule_format, of "Suc k"] Suc show "entry_name (rest ! k) \<noteq> Some n"
        by simp
    qed
    from Cons.IH [OF rest i later] Suc show ?thesis by simp
  qed
qed

lemma spawn_children_distinct:
  "spawn_children self cs found w = (Inr found', w') \<Longrightarrow> distinct (map fst found) \<Longrightarrow>
   distinct (map fst found')"
proof (induction cs arbitrary: found w)
  case Nil
  then show ?case by simp
next
  case (Cons x rest)
  from spawn_children_step [OF Cons.prems(1)] obtain m g where
    rest: "spawn_children self rest
       (dict_set found m \<lparr>cid = next_ref w, name = m, link = g, server = self\<rparr>)
       (w\<lparr>next_ref := next_ref w + 1\<rparr>) = (Inr found', w')"
    by blast
  from Cons.IH [OF rest dict_set_distinct [OF Cons.prems(2)]] show ?case .
qed

lemma last_occurrence:
  "\<exists>x \<in> set xs. f x = Some n \<Longrightarrow>
   \<exists>j < length xs. f (xs ! j) = Some n \<and> (\<forall>k. j < k \<and> k < length xs \<longrightarrow> f (xs ! k) \<noteq> Some n)"
proof (induction xs rule: rev_induct)
  case Nil
  then show ?case by simp
next
  case (snoc x xs)
  show ?case
  proof (cases "f x = Some n")
    case True
    then have "f ((xs @ [x]) ! length xs) = Some n" by simp
    moreover have "\<forall>k. length xs < k \<and> k < length (xs @ [x]) \<longrightarrow> f ((xs @ [x]) ! k) \<noteq> Some n"
      by auto
    ultimately show ?thesis
      by (intro exI [of _ "length xs"]) simp
  next
    case False
    with snoc.prems have "\<exists>y \<in> set xs. f y = Some n" by auto
    from snoc.IH [OF this] obtain j where j: "j < length xs" "f (xs ! j) = Some n"
      "\<forall>k. j < k \<and> k < length xs \<longrightarrow> f (xs ! k) \<noteq> Some n" by blast
    have "\<forall>k. j < k \<and> k < length (xs @ [x]) \<longrightarrow> f ((xs @ [x]) ! k) \<noteq> Some n"
    proof (intro allI impI)
      fix k assume k: "j < k \<and> k < length (xs @ [x])"
      show "f ((xs @ [x]) ! k) \<noteq> Some n"
      proof (cases "k < length xs")
        case True
        with j(3) k show ?thesis by (simp add: nth_append)
      next
        case False
        with k have "k = length xs" by simp
        with \<open>f x \<noteq> Some n\<close> show ?thesis by simp
      qed
    qed
    with j(1,2) show ?thesis
      by (intro exI [of _ j]) (simp add: nth_append)
  qed
qed

lemma in_set_drop_nth: "x \<in> set (drop n xs) \<longleftrightarrow> (\<exists>k. n \<le> k \<and> k < length xs \<and> xs ! k = x)"
proof
  assume "x \<in> set (drop n xs)"
  then obtain i where "i < length xs - n" "drop n xs ! i = x"
    by (auto simp: in_set_conv_nth)
  then have "n \<le> n + i \<and> n + i < length xs \<and> xs ! (n + i) = x"
    by simp
  then show "\<exists>k. n \<le> k \<and> k < length xs \<and> xs ! k = x" by blast
next
  assume "\<exists>k. n \<le> k \<and> k < length xs \<and> xs ! k = x"
  then obtain k where k: "n \<le> k" "k < length xs" "xs ! k = x" by blast
  then have "k - n < length (drop n xs)" "drop n xs ! (k - n) = x"
    by simp_all
  then show "x \<in> set (drop n xs)"
    by (auto simp: in_set_conv_nth)
qed

lemma last_named_iff:
  "last_named merged j n \<longleftrightarrow>
     j < length merged \<and> entry_name (merged ! j) = Some n
     \<and> (\<forall>k. j < k \<and> k < length merged \<longrightarrow> entry_name (merged ! k) \<noteq> Some n)"
proof -
  have "Some n \<in> set (map entry_name (drop (Suc j) merged))
        \<longleftrightarrow> (\<exists>k. j < k \<and> k < length merged \<and> entry_name (merged ! k) = Some n)"
  proof
    assume "Some n \<in> set (map entry_name (drop (Suc j) merged))"
    then obtain x where "x \<in> set (drop (Suc j) merged)" "entry_name x = Some n"
      by auto
    then show "\<exists>k. j < k \<and> k < length merged \<and> entry_name (merged ! k) = Some n"
      by (auto simp: in_set_drop_nth Suc_le_eq)
  next
    assume "\<exists>k. j < k \<and> k < length merged \<and> entry_name (merged ! k) = Some n"
    then obtain k where k: "Suc j \<le> k" "k < length merged" "entry_name (merged ! k) = Some n"
      by (auto simp: Suc_le_eq)
    then have "merged ! k \<in> set (drop (Suc j) merged)"
      using in_set_drop_nth [of "merged ! k" "Suc j" merged] by blast
    with k(3) show "Some n \<in> set (map entry_name (drop (Suc j) merged))"
      by (metis image_eqI set_map)
  qed
  then show ?thesis
    by (auto simp: last_named_def)
qed

lemma last_named_exists:
  assumes "i < length merged" and "entry_name (merged ! i) = Some n"
  shows "\<exists>j. i \<le> j \<and> last_named merged j n"
proof -
  from assms have "\<exists>x \<in> set merged. entry_name x = Some n"
    using nth_mem by blast
  from last_occurrence [OF this] obtain j where j: "last_named merged j n"
    by (auto simp: last_named_iff)
  with assms have "i \<le> j"
    by (metis last_named_iff not_le_imp_less)
  with j show ?thesis by blast
qed

lemma injected_is_last:
  "last_named (discovered @ extra_entities) (length discovered) ''Measurement''"
  "entry_href ((discovered @ extra_entities) ! length discovered) = Some (JStr ''measurement'')"
  by (simp_all add: last_named_def extra_entities_def entry_name_def entry_href_def
      remove_underscores_def str_title_def is_lower_def is_upper_def to_upper_def to_lower_def)

subsection \<open>From the constructor to the entity map\<close>

lemma insert_extra_entities:
  assumes "insert_entries response extra_entities = Inr response'"
  shows "\<exists>links discovered links'.
           py_getitem response ''_links'' = Inr links
         \<and> py_getitem links ''child'' = Inr (JArr discovered)
         \<and> py_getitem response' ''_links'' = Inr links'
         \<and> py_getitem links' ''child'' = Inr (JArr (discovered @ extra_entities))"
proof -
  from assms have app: "append_child response (hd extra_entities) = Inr response'"
    by (simp add: extra_entities_def split: sum.splits)
  then obtain links where links: "py_getitem response ''_links'' = Inr links"
    by (auto simp: append_child_def bind_err_def split: sum.splits)
  with app obtain child where child: "py_getitem links ''child'' = Inr child"
    by (auto simp: append_child_def bind_err_def split: sum.splits)
  with app links obtain discovered where disc: "child = JArr discovered"
    by (auto simp: append_child_def bind_err_def split: json.splits)
  from links obtain d where d: "response = JObj d"
    by (cases response) auto
  from child obtain l where l: "links = JObj l"
    by (cases links) auto
  from app links child disc d l have
    "response' = JObj (dict_set d ''_links''
        (JObj (dict_set l ''child'' (JArr (discovered @ extra_entities)))))"
    by (simp add: append_child_def bind_err_def extra_entities_def)
  then have "py_getitem response' ''_links''
               = Inr (JObj (dict_set l ''child'' (JArr (discovered @ extra_entities))))"
    and "py_getitem (JObj (dict_set l ''child'' (JArr (discovered @ extra_entities)))) ''child''
               = Inr (JArr (discovered @ extra_entities))"
    by (simp_all add: dict_get_dict_set)
  with links child disc show ?thesis by blast
qed

lemma discovery:
  assumes "Client_spawn_entities E self (Some extra_entities) w = (Inr found, w')"
    and "clients w self = Some cl"
  shows "\<exists>r response links discovered.
           respond E (sent w)
             \<lparr>verb = GET, sess = session cl, target = url cl, payload = None, if_match = None\<rparr>
             = Some r
         \<and> json_loads E (content r) = Some response
         \<and> py_getitem response ''_links'' = Inr links
         \<and> py_getitem links ''child'' = Inr (JArr discovered)
         \<and> spawn_children self (discovered @ extra_entities) []
              (w\<lparr>sent := sent w @ [\<lparr>verb = GET, sess = session cl, target = url cl,
                                    payload = None, if_match = None\<rparr>]\<rparr>) = (Inr found, w')"
proof -
  let ?req = "\<lparr>verb = GET, sess = session cl, target = url cl, payload = None, if_match = None\<rparr>"
  let ?w1 = "w\<lparr>sent := sent w @ [?req]\<rparr>"
  from assms obtain r where r: "respond E (sent w) ?req = Some r"
    by (cases "respond E (sent w) ?req")
       (auto simp: Client_spawn_entities_def io_defs the_client_def session_get_def
          session_request_def)
  with assms obtain response where response: "json_loads E (content r) = Some response"
    by (cases "json_loads E (content r)")
       (auto simp: Client_spawn_entities_def io_defs the_client_def session_get_def
          session_request_def response_text_def split: sum.splits)
  with assms r obtain response' where
    ins: "insert_entries response extra_entities = Inr response'" and
    rest: "bind_io (lift_io (bind_err (py_getitem response' ''_links'') (\<lambda>links.
                             bind_err (py_getitem links ''child'') py_iter)))
             (\<lambda>children. spawn_children self children []) ?w1 = (Inr found, w')"
    by (cases "insert_entries response extra_entities")
       (auto simp: Client_spawn_entities_def the_client_def session_get_def
          session_request_def response_text_def bind_io_def lift_io_def raise_io_def
          split: sum.splits)
  from insert_extra_entities [OF ins] obtain links discovered links' where
    l: "py_getitem response ''_links'' = Inr links"
       "py_getitem links ''child'' = Inr (JArr discovered)"
       "py_getitem response' ''_links'' = Inr links'"
       "py_getitem links' ''child'' = Inr (JArr (discovered @ extra_entities))"
    by blast
  with rest have "spawn_children self (discovered @ extra_entities) [] ?w1 = (Inr found, w')"
    by (simp add: io_defs)
  with r response l show ?thesis by blast
qed

lemma Client_init_result:
  assumes "Client_init E url' session' w = (Inr self, w')"
    and "s = (case session' of None \<Rightarrow> next_ref w + 1 | Some s' \<Rightarrow> s')"
    and "w3 = w\<lparr>next_ref := (case session' of None \<Rightarrow> next_ref w + 2 | Some s' \<Rightarrow> next_ref w + 1),
                clients := (clients w)
                  (next_ref w \<mapsto> \<lparr>session = s, url = url', entities = None\<rparr>)\<rparr>"
  shows "self = next_ref w
         \<and> (\<exists>found w4.
               Client_spawn_entities E self (Some extra_entities) w3 = (Inr found, w4)
             \<and> w' = w4\<lparr>clients := (clients w4)
                         (self \<mapsto> \<lparr>session = s, url = url', entities = Some found\<rparr>)\<rparr>)"
  using assms
  by (cases session')
     (auto simp: Client_init_def Let_def split: prod.splits sum.splits)

text \<open>
  What a Client that was built holds: the discovery answer lists \<open>discovered\<close>, the
  merged list is \<open>discovered @ extra_entities\<close>, every merged entry has a title and a
  link, and a name is bound exactly to the class made for the last merged entry of that
  name; \<open>base + j\<close> is the identity of the class made in round \<open>j\<close>.
\<close>

lemma Client_init_catalogue:
  assumes "Client_init E url' session' w = (Inr self, w')"
  shows "\<exists>cl found r response links discovered base.
           clients w' self = Some cl \<and> url cl = url' \<and> entities cl = Some found
         \<and> respond E (sent w)
             \<lparr>verb = GET, sess = session cl, target = url', payload = None, if_match = None\<rparr>
             = Some r
         \<and> json_loads E (content r) = Some response
         \<and> py_getitem response ''_links'' = Inr links
         \<and> py_getitem links ''child'' = Inr (JArr discovered)
         \<and> distinct (map fst found)
         \<and> (\<forall>entry \<in> set (discovered @ extra_entities).
               \<exists>n h. entry_name entry = Some n \<and> entry_href entry = Some h)
         \<and> (\<forall>n v. dict_get found n = Some v \<longleftrightarrow>
               (\<exists>j h. last_named (discovered @ extra_entities) j n
                     \<and> entry_href ((discovered @ extra_entities) ! j) = Some h
                     \<and> v = \<lparr>cid = base + j, name = n, link = h, server = self\<rparr>))"
proof -
  define s where "s = (case session' of None \<Rightarrow> next_ref w + 1 | Some s' \<Rightarrow> s')"
  define w3 where
    "w3 = w\<lparr>next_ref := (case session' of None \<Rightarrow> next_ref w + 2 | Some s' \<Rightarrow> next_ref w + 1),
            clients := (clients w)
              (next_ref w \<mapsto> \<lparr>session = s, url = url', entities = None\<rparr>)\<rparr>"
  from Client_init_result [OF assms s_def w3_def] obtain found w4 where
    self: "self = next_ref w" and
    spawn: "Client_spawn_entities E self (Some extra_entities) w3 = (Inr found, w4)" and
    w': "w' = w4\<lparr>clients := (clients w4)
                  (self \<mapsto> \<lparr>session = s, url = url', entities = Some found\<rparr>)\<rparr>"
    by blast
  let ?cl = "\<lparr>session = s, url = url', entities = Some found\<rparr>"
  let ?req = "\<lparr>verb = GET, sess = s, target = url', payload = None, if_match = None\<rparr>"
  have cl3: "clients w3 self = Some \<lparr>session = s, url = url', entities = None\<rparr>"
    by (simp add: w3_def self)
  from discovery [OF spawn cl3] obtain r response links discovered where
    r: "respond E (sent w3) ?req = Some r" and
    response: "json_loads E (content r) = Some response" and
    links: "py_getitem response ''_links'' = Inr links" and
    child: "py_getitem links ''child'' = Inr (JArr discovered)" and
    loop: "spawn_children self (discovered @ extra_entities) []
             (w3\<lparr>sent := sent w3 @ [?req]\<rparr>) = (Inr found, w4)"
    by auto
  let ?merged = "discovered @ extra_entities"
  let ?base = "next_ref w3"
  have sent3: "sent w3 = sent w" by (simp add: w3_def)
  have entries: "\<forall>entry \<in> set ?merged. \<exists>n h. entry_name entry = Some n \<and> entry_href entry = Some h"
    using spawn_children_entries [OF loop] by blast
  have bound: "dict_get found n = Some v \<longleftrightarrow>
               (\<exists>j h. last_named ?merged j n \<and> entry_href (?merged ! j) = Some h
                     \<and> v = \<lparr>cid = ?base + j, name = n, link = h, server = self\<rparr>)" for n v
  proof
    assume got: "dict_get found n = Some v"
    have "\<exists>entry \<in> set ?merged. entry_name entry = Some n"
    proof (rule ccontr)
      assume "\<not> (\<exists>entry \<in> set ?merged. entry_name entry = Some n)"
      then have "\<forall>entry \<in> set ?merged. entry_name entry \<noteq> Some n" by blast
      from spawn_children_untouched [OF loop this] got show False by simp
    qed
    from last_occurrence [OF this] obtain j where j: "last_named ?merged j n"
      by (auto simp: last_named_iff)
    then have "?merged ! j \<in> set ?merged"
      by (simp add: last_named_iff del: set_append)
    with entries obtain h where h: "entry_href (?merged ! j) = Some h" by blast
    from j have "dict_get found n
                 = Some \<lparr>cid = next_ref (w3\<lparr>sent := sent w3 @ [?req]\<rparr>) + j, name = n, link = h,
                         server = self\<rparr>"
      by (intro spawn_children_last [OF loop _ _ h]) (simp_all add: last_named_iff)
    with got have "v = \<lparr>cid = ?base + j, name = n, link = h, server = self\<rparr>" by simp
    with j h show "\<exists>j h. last_named ?merged j n \<and> entry_href (?merged ! j) = Some h
                     \<and> v = \<lparr>cid = ?base + j, name = n, link = h, server = self\<rparr>"
      by blast
  next
    assume "\<exists>j h. last_named ?merged j n \<and> entry_href (?merged ! j) = Some h
                     \<and> v = \<lparr>cid = ?base + j, name = n, link = h, server = self\<rparr>"
    then obtain j h where j: "last_named ?merged j n" and h: "entry_href (?merged ! j) = Some h"
      and v: "v = \<lparr>cid = ?base + j, name = n, link = h, server = self\<rparr>" by blast
    from j have "dict_get found n
                 = Some \<lparr>cid = next_ref (w3\<lparr>sent := sent w3 @ [?req]\<rparr>) + j, name = n, link = h,
                         server = self\<rparr>"
      by (intro spawn_children_last [OF loop _ _ h]) (simp_all add: last_named_iff)
    with v show "dict_get found n = Some v" by simp
  qed
  have "distinct (map fst found)"
    using spawn_children_distinct [OF loop] by simp
  moreover have "clients w' self = Some ?cl" "url ?cl = url'" "entities ?cl = Some found"
    by (simp_all add: w')
  moreover have "respond E (sent w)
       \<lparr>verb = GET, sess = session ?cl, target = url', payload = None, if_match = None\<rparr> = Some r"
    using r sent3 by simp
  ultimately show ?thesis
    using response links child entries bound by blast
qed

lemma Client_attribute_entity:
  assumes "clients w self = Some cl"
    and "entities cl = Some found"
    and "dict_get found (remove_underscores (str_title s)) = Some v"
  shows "Client_attribute self (remove_underscores (str_title s)) w = (Inr (Class v), w)"
  using assms
  by (simp add: Client_attribute_def Client_getattr_def normalized_not_dunder
      normalized_not_ordinary io_defs the_client_def)

lemma Client_attribute_Class:
  assumes "Client_attribute self a w = (Inr (Class v), w')"
    and "clients w self = Some cl"
    and "entities cl = Some found"
  shows "dict_get found a = Some v"
  using assms
  by (auto simp: Client_attribute_def Client_getattr_def io_defs the_client_def
      split: if_splits option.splits)

lemma demo_init: "Client_init demo_env ''api'' None demo_world = (Inr 0, demo_connected)"
  by (simp add: Client_init_def demo_world_def Client_spawn_entities_def bind_io_def
      the_client_def session_get_def session_request_def demo_env_def demo_respond_def
      lift_io_def Client_validate_def raise_for_status_def response_text_def demo_loads_def
      demo_catalogue_def extra_entities_def append_child_def bind_err_def dict_keys_def
      Entity_spawn_subclass_def remove_underscores_def str_title_def is_lower_def is_upper_def
      to_upper_def to_lower_def demo_connected_def demo_client_def demo_book_def
      demo_measurement_def Let_def raise_io_def return_io_def fun_eq_iff)

subsection \<open>Attributes of the Client\<close>

text \<open>
  C1, as stated, does not hold. The claim binds, for every merged entry, the attribute of
  its normalized title to a class of its own whose link is the entry's \<open>href\<close>. The
  demo server advertises a resource titled \<open>measurement\<close> with the link
  \<open>sensor_log\<close>; the injected pseudo-resource normalizes to the same name
  \<open>Measurement\<close>, and the attribute \<open>Measurement\<close> of the Client resolves to a class
  whose link is \<open>measurement\<close>, not \<open>sensor_log\<close>.
\<close>

theorem shadowed_entry_loses_its_link:
  "Client_init demo_env ''api'' None demo_world = (Inr 0, demo_connected)
   \<and> json_loads demo_env ''catalogue'' = Some demo_catalogue
   \<and> py_getitem demo_catalogue ''_links''
       = Inr (JObj [(''child'', JArr
                [JObj [(''title'', JStr ''book''), (''href'', JStr ''book'')],
                 JObj [(''title'', JStr ''measurement''), (''href'', JStr ''sensor_log'')]])])
   \<and> py_getitem (JObj [(''child'', JArr
                [JObj [(''title'', JStr ''book''), (''href'', JStr ''book'')],
                 JObj [(''title'', JStr ''measurement''), (''href'', JStr ''sensor_log'')]])])
         ''child''
       = Inr (JArr [JObj [(''title'', JStr ''book''), (''href'', JStr ''book'')],
                    JObj [(''title'', JStr ''measurement''), (''href'', JStr ''sensor_log'')]])
   \<and> entry_name (JObj [(''title'', JStr ''measurement''), (''href'', JStr ''sensor_log'')])
       = Some ''Measurement''
   \<and> entry_href (JObj [(''title'', JStr ''measurement''), (''href'', JStr ''sensor_log'')])
       = Some (JStr ''sensor_log'')
   \<and> Client_attribute 0 ''Measurement'' demo_connected
       = (Inr (Class demo_measurement), demo_connected)
   \<and> link demo_measurement = JStr ''measurement''
   \<and> link demo_measurement \<noteq> JStr ''sensor_log''"
proof -
  have "Client_attribute 0 ''Measurement'' demo_connected
          = (Inr (Class demo_measurement), demo_connected)"
    by (simp add: Client_attribute_def Client_getattr_def io_defs the_client_def demo_facts
        demo_client_def Client_methods_def)
  then show ?thesis
    by (simp add: demo_init demo_facts demo_loads_def demo_catalogue_def bind_err_def
        entry_name_def entry_href_def remove_underscores_def str_title_def is_lower_def
        is_upper_def to_upper_def to_lower_def demo_measurement_def)
qed

text \<open>
  C1, amended. When the constructor returns, for every entry of the merged list
  (the \<open>_links.child\<close> of the discovery answer followed by the injected
  pseudo-resources) the Client exposes an attribute named by the entry's normalized
  title. It resolves to an Entity subclass of that name whose \<open>server\<close> is the Client
  and whose \<open>link\<close> is the \<open>href\<close> of the last merged entry with that normalized
  title: the entry's own \<open>href\<close> when no later entry shares its name. Attributes of
  different names resolve to different classes.
\<close>

theorem Client_exposes_last_entry_of_each_name:
  assumes "Client_init E url' session' w = (Inr self, w')"
  shows "\<exists>cl r response links discovered.
           clients w' self = Some cl
         \<and> respond E (sent w)
             \<lparr>verb = GET, sess = session cl, target = url', payload = None, if_match = None\<rparr>
             = Some r
         \<and> json_loads E (content r) = Some response
         \<and> py_getitem response ''_links'' = Inr links
         \<and> py_getitem links ''child'' = Inr (JArr discovered)
         \<and> (\<forall>i < length (discovered @ extra_entities). \<exists>n v j.
               entry_name ((discovered @ extra_entities) ! i) = Some n
             \<and> Client_attribute self n w' = (Inr (Class v), w')
             \<and> name v = n \<and> server v = self
             \<and> i \<le> j \<and> last_named (discovered @ extra_entities) j n
             \<and> entry_href ((discovered @ extra_entities) ! j) = Some (link v))
         \<and> (\<forall>a b va vb.
               Client_attribute self a w' = (Inr (Class va), w')
             \<and> Client_attribute self b w' = (Inr (Class vb), w') \<and> a \<noteq> b
             \<longrightarrow> cid va \<noteq> cid vb)"
proof -
  from Client_init_catalogue [OF assms] obtain cl found r response links discovered base where
    cl: "clients w' self = Some cl" "entities cl = Some found" and
    r: "respond E (sent w)
          \<lparr>verb = GET, sess = session cl, target = url', payload = None, if_match = None\<rparr>
          = Some r" and
    response: "json_loads E (content r) = Some response"
      "py_getitem response ''_links'' = Inr links"
      "py_getitem links ''child'' = Inr (JArr discovered)" and
    entries: "\<forall>entry \<in> set (discovered @ extra_entities).
               \<exists>n h. entry_name entry = Some n \<and> entry_href entry = Some h" and
    bound: "\<forall>n v. dict_get found n = Some v \<longleftrightarrow>
               (\<exists>j h. last_named (discovered @ extra_entities) j n
                     \<and> entry_href ((discovered @ extra_entities) ! j) = Some h
                     \<and> v = \<lparr>cid = base + j, name = n, link = h, server = self\<rparr>)"
    by blast
  let ?merged = "discovered @ extra_entities"
  have each: "\<exists>n v j. entry_name (?merged ! i) = Some n
             \<and> Client_attribute self n w' = (Inr (Class v), w')
             \<and> name v = n \<and> server v = self
             \<and> i \<le> j \<and> last_named ?merged j n
             \<and> entry_href (?merged ! j) = Some (link v)" if i: "i < length ?merged" for i
  proof -
    from i have "?merged ! i \<in> set ?merged" by (rule nth_mem)
    with entries obtain n where n: "entry_name (?merged ! i) = Some n" by blast
    from last_named_exists [OF i n] obtain j where j: "i \<le> j" "last_named ?merged j n"
      by blast
    then have "?merged ! j \<in> set ?merged"
      by (simp add: last_named_iff del: set_append)
    with entries obtain h where h: "entry_href (?merged ! j) = Some h" by blast
    let ?v = "\<lparr>cid = base + j, name = n, link = h, server = self\<rparr>"
    from bound j h have got: "dict_get found n = Some ?v" by blast
    from entry_name_normalized [OF n] obtain s where "n = remove_underscores (str_title s)"
      by blast
    with Client_attribute_entity [OF cl got [unfolded this]]
    have "Client_attribute self n w' = (Inr (Class ?v), w')" by simp
    with n j h show ?thesis
      by (intro exI [of _ n] exI [of _ ?v] exI [of _ j]) simp
  qed
  have apart: "cid va \<noteq> cid vb"
    if "Client_attribute self a w' = (Inr (Class va), w')"
      and "Client_attribute self b w' = (Inr (Class vb), w')" and "a \<noteq> b" for a b va vb
  proof -
    from that(1) cl have "dict_get found a = Some va" by (rule Client_attribute_Class)
    with bound obtain ja where ja: "last_named ?merged ja a" "cid va = base + ja"
      by auto
    from that(2) cl have "dict_get found b = Some vb" by (rule Client_attribute_Class)
    with bound obtain jb where jb: "last_named ?merged jb b" "cid vb = base + jb"
      by auto
    from ja(1) jb(1) that(3) have "ja \<noteq> jb"
      by (auto simp: last_named_def)
    with ja(2) jb(2) show ?thesis by simp
  qed
  from cl(1) r response each apart show ?thesis
    by blast
qed

text \<open>The amended C1 on the demo server, whose constructor returns.\<close>

theorem Client_exposes_last_entry_of_each_name_witness:
  "Client_init demo_env ''api'' None demo_world = (Inr 0, demo_connected)
   \<and> (\<exists>cl r response links discovered.
           clients demo_connected 0 = Some cl
         \<and> respond demo_env (sent demo_world)
             \<lparr>verb = GET, sess = session cl, target = ''api'', payload = None, if_match = None\<rparr>
             = Some r
         \<and> json_loads demo_env (content r) = Some response
         \<and> py_getitem response ''_links'' = Inr links
         \<and> py_getitem links ''child'' = Inr (JArr discovered)
         \<and> (\<forall>i < length (discovered @ extra_entities). \<exists>n v j.
               entry_name ((discovered @ extra_entities) ! i) = Some n
             \<and> Client_attribute 0 n demo_connected = (Inr (Class v), demo_connected)
             \<and> name v = n \<and> server v = 0
             \<and> i \<le> j \<and> last_named (discovered @ extra_entities) j n
             \<and> entry_href ((discovered @ extra_entities) ! j) = Some (link v))
         \<and> (\<forall>a b va vb.
               Client_attribute 0 a demo_connected = (Inr (Class va), demo_connected)
             \<and> Client_attribute 0 b demo_connected = (Inr (Class vb), demo_connected) \<and> a \<noteq> b
             \<longrightarrow> cid va \<noteq> cid vb))"
  using Client_exposes_last_entry_of_each_name [OF demo_init] demo_init
  by simp

text \<open>
  C10. When the constructor returns, the entity map has distinct keys, and they are
  exactly the normalized titles of the merged entries: one variant per normalized name.
  When an entry is followed by the last entry \<open>j\<close> of the same normalized name, the
  name is bound to the class made for entry \<open>j\<close>, with the link of entry \<open>j\<close>: the
  later entry wins. The injected entry is the last of the merged list, so the name
  \<open>Measurement\<close> is bound to the class made for it, with the link \<open>measurement\<close>,
  whatever the discovery answer lists.
\<close>

theorem later_entry_wins_and_Measurement_shadows:
  assumes "Client_init E url' session' w = (Inr self, w')"
  shows "\<exists>cl found r response links discovered base.
           clients w' self = Some cl \<and> entities cl = Some found
         \<and> respond E (sent w)
             \<lparr>verb = GET, sess = session cl, target = url', payload = None, if_match = None\<rparr>
             = Some r
         \<and> json_loads E (content r) = Some response
         \<and> py_getitem response ''_links'' = Inr links
         \<and> py_getitem links ''child'' = Inr (JArr discovered)
         \<and> distinct (map fst found)
         \<and> set (map fst found) = {n. Some n \<in> set (map entry_name (discovered @ extra_entities))}
         \<and> (\<forall>i j n. i < j \<and> entry_name ((discovered @ extra_entities) ! i) = Some n
                     \<and> last_named (discovered @ extra_entities) j n
               \<longrightarrow> (\<exists>v. dict_get found n = Some v \<and> cid v = base + j
                        \<and> entry_href ((discovered @ extra_entities) ! j) = Some (link v)))
         \<and> (\<exists>v. dict_get found ''Measurement'' = Some v \<and> link v = JStr ''measurement''
                \<and> cid v = base + length discovered)"
proof -
  from Client_init_catalogue [OF assms] obtain cl found r response links discovered base where
    cl: "clients w' self = Some cl" "entities cl = Some found" and
    r: "respond E (sent w)
          \<lparr>verb = GET, sess = session cl, target = url', payload = None, if_match = None\<rparr>
          = Some r" and
    response: "json_loads E (content r) = Some response"
      "py_getitem response ''_links'' = Inr links"
      "py_getitem links ''child'' = Inr (JArr discovered)" and
    dist: "distinct (map fst found)" and
    entries: "\<forall>entry \<in> set (discovered @ extra_entities).
               \<exists>n h. entry_name entry = Some n \<and> entry_href entry = Some h" and
    bound: "\<forall>n v. dict_get found n = Some v \<longleftrightarrow>
               (\<exists>j h. last_named (discovered @ extra_entities) j n
                     \<and> entry_href ((discovered @ extra_entities) ! j) = Some h
                     \<and> v = \<lparr>cid = base + j, name = n, link = h, server = self\<rparr>)"
    by blast
  let ?merged = "discovered @ extra_entities"
  have href: "\<exists>h. entry_href (?merged ! j) = Some h" if "last_named ?merged j n" for j n
  proof -
    from that have "?merged ! j \<in> set ?merged"
      by (simp add: last_named_iff del: set_append)
    with entries show ?thesis by blast
  qed
  have keys: "set (map fst found) = {n. Some n \<in> set (map entry_name ?merged)}"
  proof (intro set_eqI iffI)
    fix n assume "n \<in> set (map fst found)"
    then obtain v where "dict_get found n = Some v"
      using dict_get_keys [of found n] by auto
    with bound obtain j where "last_named ?merged j n" by blast
    then have "?merged ! j \<in> set ?merged" "entry_name (?merged ! j) = Some n"
      by (simp_all add: last_named_iff del: set_append)
    then show "n \<in> {n. Some n \<in> set (map entry_name ?merged)}"
      by (metis (mono_tags, lifting) image_eqI mem_Collect_eq set_map)
  next
    fix n assume "n \<in> {n. Some n \<in> set (map entry_name ?merged)}"
    then have "\<exists>x \<in> set ?merged. entry_name x = Some n" by auto
    from last_occurrence [OF this] obtain j where j: "last_named ?merged j n"
      by (auto simp: last_named_iff)
    with href obtain h where "entry_href (?merged ! j) = Some h" by blast
    with bound j have "dict_get found n \<noteq> None" by blast
    with dict_get_keys [of found n] show "n \<in> set (map fst found)" by blast
  qed
  have later: "\<exists>v. dict_get found n = Some v \<and> cid v = base + j
                 \<and> entry_href (?merged ! j) = Some (link v)"
    if "last_named ?merged j n" for j n
  proof -
    from href [OF that] obtain h where h: "entry_href (?merged ! j) = Some h" by blast
    with bound that
    have "dict_get found n = Some \<lparr>cid = base + j, name = n, link = h, server = self\<rparr>"
      by blast
    with h show ?thesis by simp
  qed
  have "\<exists>v. dict_get found ''Measurement'' = Some v \<and> cid v = base + length discovered
           \<and> entry_href (?merged ! length discovered) = Some (link v)"
    by (rule later [OF injected_is_last(1)])
  moreover have "entry_href (?merged ! length discovered) = Some (JStr ''measurement'')"
    by (rule injected_is_last(2))
  ultimately have measurement:
    "\<exists>v. dict_get found ''Measurement'' = Some v \<and> link v = JStr ''measurement''
         \<and> cid v = base + length discovered"
    by auto
  from cl r response dist keys later measurement show ?thesis
    by blast
qed

text \<open>C10 on the demo server, whose catalogue holds a resource titled \<open>measurement\<close>.\<close>

theorem later_entry_wins_and_Measurement_shadows_witness:
  "Client_init demo_env ''api'' None demo_world = (Inr 0, demo_connected)
   \<and> (\<exists>cl found r response links discovered base.
           clients demo_connected 0 = Some cl \<and> entities cl = Some found
         \<and> respond demo_env (sent demo_world)
             \<lparr>verb = GET, sess = session cl, target = ''api'', payload = None, if_match = None\<rparr>
             = Some r
         \<and> json_loads demo_env (content r) = Some response
         \<and> py_getitem response ''_links'' = Inr links
         \<and> py_getitem links ''child'' = Inr (JArr discovered)
         \<and> distinct (map fst found)
         \<and> set (map fst found) = {n. Some n \<in> set (map entry_name (discovered @ extra_entities))}
         \<and> (\<forall>i j n. i < j \<and> entry_name ((discovered @ extra_entities) ! i) = Some n
                     \<and> last_named (discovered @ extra_entities) j n
               \<longrightarrow> (\<exists>v. dict_get found n = Some v \<and> cid v = base + j
                        \<and> entry_href ((discovered @ extra_entities) ! j) = Some (link v)))
         \<and> (\<exists>v. dict_get found ''Measurement'' = Some v \<and> link v = JStr ''measurement''
                \<and> cid v = base + length discovered))"
  using later_entry_wins_and_Measurement_shadows [OF demo_init] demo_init
  by simp

section \<open>Fields and attributes of an instance\<close>

text \<open>
  C2. An instance built from the keyword fields \<open>a = 1\<close>, \<open>b = 2\<close> reads \<open>.a\<close> as 1
  and \<open>.b\<close> as 2. Assigning \<open>.a = 5\<close> rewrites that entry of the field mapping and
  nothing else: \<open>.b\<close> still reads 2. Assigning the absent name \<open>.c = 9\<close> binds
  \<open>c\<close> in the instance's own \<open>__dict__\<close>: \<open>.c\<close> reads 9, the field mapping is
  as before and \<open>regular_fields()\<close> does not list \<open>c\<close>; once \<open>c\<close> is stored in
  the mapping itself, \<open>regular_fields()\<close> lists it.
\<close>

theorem field_mapping_round_trip:
  "(let e0 = instance_of c [(''a'', JNum 1), (''b'', JNum 2)];
        e1 = instance_of c [(''a'', JNum 5), (''b'', JNum 2)];
        e2 = e1\<lparr>idict := idict e1 @ [(''c'', JNum 9)]\<rparr>;
        e3 = e2\<lparr>idict := dict_set (idict e2) ''fields''
                     (JObj [(''a'', JNum 5), (''b'', JNum 2), (''c'', JNum 9)])\<rparr>
    in Entity_init c [(''a'', JNum 1), (''b'', JNum 2)] = Inr e0
     \<and> Entity_attribute e0 ''a'' = Inr (Value (JNum 1))
     \<and> Entity_attribute e0 ''b'' = Inr (Value (JNum 2))
     \<and> Entity_setattr e0 ''a'' (JNum 5) = Inr e1
     \<and> Entity_attribute e1 ''a'' = Inr (Value (JNum 5))
     \<and> Entity_attribute e1 ''b'' = Inr (Value (JNum 2))
     \<and> Entity_setattr e1 ''c'' (JNum 9) = Inr e2
     \<and> Entity_attribute e2 ''c'' = Inr (Value (JNum 9))
     \<and> Entity_fields e2 = Inr (JObj [(''a'', JNum 5), (''b'', JNum 2)])
     \<and> Entity_regular_fields e2 = Inr [(''a'', JNum 5), (''b'', JNum 2)]
     \<and> py_setitem (JObj [(''a'', JNum 5), (''b'', JNum 2)]) ''c'' (JNum 9)
         = Inr (JObj [(''a'', JNum 5), (''b'', JNum 2), (''c'', JNum 9)])
     \<and> Entity_fields e3 = Inr (JObj [(''a'', JNum 5), (''b'', JNum 2), (''c'', JNum 9)])
     \<and> Entity_regular_fields e3 = Inr [(''a'', JNum 5), (''b'', JNum 2), (''c'', JNum 9)])"
  by (simp add: Let_def instance_of_def Entity_init_def Entity_setattr_def object_setattr_def
      Entity_attribute_def Entity_getattr_def Entity_fields_def Entity_regular_fields_def
      Entity_methods_def bind_err_def dict_contains_def)

section \<open>The delete verb\<close>

text \<open>
  C3, as stated, does not hold. The claim lets \<open>delete\<close> raise \<open>HttpError\<close> when the
  GET or the DELETE comes back with an error status. The status of the GET is never
  looked at: on the demo server the GET of \<open>book/7\<close> answers 404 with a JSON body, the
  DELETE answers 204, and \<open>delete\<close> returns the decoded body of the 404.
\<close>

theorem delete_ignores_get_status:
  "respond demo_env (sent demo_connected)
     \<lparr>verb = GET, sess = 1, target = ''api/book/7'', payload = None, if_match = None\<rparr>
     = Some \<lparr>status_code = 404, content = ''problem''\<rparr>
   \<and> fst (Client_delete demo_env (0, JStr ''book/7'', JNull) demo_connected)
       = Inr (JObj [(''_status'', JStr ''ERR'')])"
  by (simp add: Client_delete_def validate_and_jsonify_def Client_delete_undecorated_def io_defs
      the_client_def url_join_def session_get_def session_delete_def session_request_def
      raise_for_status_def response_text_def demo_facts demo_respond_def demo_loads_def)

text \<open>
  C3, amended. For every route and etag, when the server answers both requests,
  \<open>delete\<close> sends a GET and next a DELETE to \<open>{url}/{route}\<close>, the DELETE with the
  etag as \<open>If-Match\<close> unless the etag is \<open>None\<close>. It raises \<open>HTTPError\<close> exactly
  when the status of the DELETE is from 400 to 599, and otherwise returns the decoded
  body of the GET, whatever the status of the GET.
\<close>

theorem delete_status_of_delete_body_of_get:
  assumes "clients w self = Some cl"
    and "get_req = \<lparr>verb = GET, sess = session cl, target = url cl @ ''/'' @ route,
                    payload = None, if_match = None\<rparr>"
    and "del_req = \<lparr>verb = DELETE, sess = session cl, target = url cl @ ''/'' @ route,
                    payload = None, if_match = (if etag = JNull then None else Some etag)\<rparr>"
    and "respond E (sent w) get_req = Some g"
    and "respond E (sent w @ [get_req]) del_req = Some d"
  shows "Client_delete E (self, JStr route, etag) w =
           ((if 400 \<le> status_code d \<and> status_code d < 600 then Inl (HTTPError (status_code d))
             else (case json_loads E (content g) of
                     None \<Rightarrow> Inl JSONDecodeError
                   | Some body \<Rightarrow> Inr body)),
            w\<lparr>sent := sent w @ [get_req, del_req]\<rparr>)"
proof (cases "etag = JNull")
  case True
  with assms show ?thesis
    by (simp add: Client_delete_def validate_and_jsonify_def Client_delete_undecorated_def io_defs
        the_client_def url_join_def session_get_def session_delete_def session_request_def
        raise_for_status_def response_text_def split: option.splits)
next
  case False
  with assms show ?thesis
    by (simp add: Client_delete_def validate_and_jsonify_def Client_delete_undecorated_def io_defs
        the_client_def url_join_def session_get_def session_delete_def session_request_def
        raise_for_status_def response_text_def split: option.splits)
qed

text \<open>The amended C3 on the demo server, with an etag.\<close>

theorem delete_status_of_delete_body_of_get_witness:
  "clients demo_connected 0 = Some demo_client
   \<and> demo_respond (sent demo_connected)
        \<lparr>verb = GET, sess = 1, target = ''api/book/7'', payload = None, if_match = None\<rparr>
       = Some \<lparr>status_code = 404, content = ''problem''\<rparr>
   \<and> demo_respond (sent demo_connected
          @ [\<lparr>verb = GET, sess = 1, target = ''api/book/7'', payload = None, if_match = None\<rparr>])
        \<lparr>verb = DELETE, sess = 1, target = ''api/book/7'', payload = None,
         if_match = Some (JStr ''t1'')\<rparr>
       = Some \<lparr>status_code = 204, content = []\<rparr>
   \<and> Client_delete demo_env (0, JStr ''book/7'', JStr ''t1'') demo_connected
       = (Inr (JObj [(''_status'', JStr ''ERR'')]),
          demo_connected\<lparr>sent := sent demo_connected
            @ [\<lparr>verb = GET, sess = 1, target = ''api/book/7'', payload = None, if_match = None\<rparr>,
               \<lparr>verb = DELETE, sess = 1, target = ''api/book/7'', payload = None,
                if_match = Some (JStr ''t1'')\<rparr>]\<rparr>)"
  using delete_status_of_delete_body_of_get
    [of demo_connected 0 demo_client _ "''book/7''" _ "JStr ''t1''" demo_env
      "\<lparr>status_code = 404, content = ''problem''\<rparr>" "\<lparr>status_code = 204, content = []\<rparr>",
     OF _ refl refl]
  by (simp add: demo_facts demo_respond_def demo_loads_def)

section \<open>Queries\<close>

lemma where_is_query: "Entity_where E c options filters = query_by E ''where'' c options filters"
  by (rule ext) (simp add: Entity_where_def query_by_def io_defs Let_def
      split: prod.splits sum.splits)

lemma embedded_is_query:
  "Entity_embedded E c options filters = query_by E ''embedded'' c options filters"
  by (rule ext) (simp add: Entity_embedded_def query_by_def io_defs Let_def
      split: prod.splits sum.splits)

lemma query_by_sends:
  assumes "clients w (server c) = Some cl"
  shows "query_by E param c options filters w =
           ((case outcome E (respond E (sent w) (query_request E cl c param options filters)) of
               Inl e \<Rightarrow> Inl e
             | Inr results \<Rightarrow>
                 (case py_getitem results ''_items'' of
                    Inl e \<Rightarrow> Inl e
                  | Inr items \<Rightarrow>
                      (case py_iter items of
                         Inl e \<Rightarrow> Inl e
                       | Inr rows \<Rightarrow> Inr (Generator c rows)))),
            w\<lparr>sent := sent w @ [query_request E cl c param options filters]\<rparr>)"
  using assms
  by (simp add: query_by_def Client_get_sends [where cl = cl] query_request_def io_defs
      split: sum.splits)

lemma generator_list_rows:
  assumes "\<forall>d \<in> set ds. \<not> dict_contains d ''self''"
  shows "generator_list (Generator c (map JObj ds)) = Inr (map (instance_of c) ds)"
  using assms
proof (induction ds)
  case Nil
  show ?case by (simp add: generator_list.simps)
next
  case (Cons d ds)
  then show ?case
    by (simp add: generator_list.simps [of "Generator c (JObj d # map JObj ds)"]
        Entity_call_def Entity_init_def Entity_setattr_def object_setattr_def bind_err_def
        dict_contains_def instance_of_def)
qed

text \<open>
  C4, as stated, does not hold. The claim lets a failed GET surface on the first
  iteration of the lazy sequence, not when \<open>where\<close> or \<open>embedded\<close> is called. The
  demo server answers the query on \<open>book\<close> with status 500, and the call itself
  returns the error: there is no sequence to iterate.
\<close>

theorem where_raises_when_called:
  "fst (Entity_where demo_env demo_book JNull [(''status'', JStr ''active'')] demo_connected)
     = Inl (HTTPError 500)
   \<and> fst (Entity_embedded demo_env demo_book JNull [(''author'', JNum 1)] demo_connected)
     = Inl (HTTPError 500)"
  by (simp add: Entity_where_def Entity_embedded_def Client_get_sends [where cl = demo_client]
      demo_facts demo_book_def py_format_def io_defs demo_respond_def outcome_def)

text \<open>
  C4, amended. For every variant and every filter set, if the GET that \<open>where\<close> or
  \<open>embedded\<close> sends is answered with a status from 400 to 599, the call itself raises
  \<open>HTTPError\<close> with that status, after the one request, and returns no lazy sequence.
\<close>

theorem failed_query_raises_at_call:
  assumes "clients w (server c) = Some cl"
    and "400 \<le> status_code r \<and> status_code r < 600"
  shows "(respond E (sent w) (query_request E cl c ''where'' options filters) = Some r \<longrightarrow>
            Entity_where E c options filters w
              = (Inl (HTTPError (status_code r)),
                 w\<lparr>sent := sent w @ [query_request E cl c ''where'' options filters]\<rparr>))
         \<and> (respond E (sent w) (query_request E cl c ''embedded'' options filters) = Some r \<longrightarrow>
            Entity_embedded E c options filters w
              = (Inl (HTTPError (status_code r)),
                 w\<lparr>sent := sent w @ [query_request E cl c ''embedded'' options filters]\<rparr>))"
  using assms
  by (simp add: where_is_query embedded_is_query query_by_sends [where cl = cl] outcome_def)

text \<open>The amended C4 on the demo server.\<close>

theorem failed_query_raises_at_call_witness:
  "clients demo_connected (server demo_book) = Some demo_client
   \<and> query_request demo_env demo_client demo_book ''where'' JNull [(''status'', JStr ''active'')]
       = \<lparr>verb = GET, sess = 1, target = ''api/book?where=q'', payload = None, if_match = None\<rparr>
   \<and> respond demo_env (sent demo_connected)
        \<lparr>verb = GET, sess = 1, target = ''api/book?where=q'', payload = None, if_match = None\<rparr>
       = Some \<lparr>status_code = 500, content = ''problem''\<rparr>
   \<and> Entity_where demo_env demo_book JNull [(''status'', JStr ''active'')] demo_connected
       = (Inl (HTTPError 500),
          demo_connected\<lparr>sent := sent demo_connected
            @ [\<lparr>verb = GET, sess = 1, target = ''api/book?where=q'', payload = None,
                if_match = None\<rparr>]\<rparr>)"
  using failed_query_raises_at_call
    [of demo_connected demo_book demo_client "\<lparr>status_code = 500, content = ''problem''\<rparr>"
        demo_env JNull "[(''status'', JStr ''active'')]"]
  by (simp add: demo_facts demo_book_def py_format_def demo_respond_def query_request_def)

text \<open>
  C9. \<open>where\<close> and \<open>embedded\<close> are the same query, run under the parameter names
  \<open>where\<close> and \<open>embedded\<close>. Called on a variant whose Client exists, the query
  sends exactly one GET, to \<open>{link}?<param>={JSON filters}[&options]\<close>, when it is
  called; when the answer is no error and decodes to an object whose \<open>_items\<close> is an
  array, it returns the lazy sequence over the rows of that array; and such a sequence
  yields the instances built from its rows, in order.
\<close>

theorem where_and_embedded_run_the_same_query:
  assumes "clients w (server c) = Some cl"
  shows "Entity_where E c options filters = query_by E ''where'' c options filters
       \<and> Entity_embedded E c options filters = query_by E ''embedded'' c options filters
       \<and> (\<forall>param. sent (snd (query_by E param c options filters w))
              = sent w @ [query_request E cl c param options filters])
       \<and> (\<forall>param r body rows.
              respond E (sent w) (query_request E cl c param options filters) = Some r
            \<and> \<not> (400 \<le> status_code r \<and> status_code r < 600)
            \<and> json_loads E (content r) = Some (JObj body)
            \<and> dict_get body ''_items'' = Some (JArr rows)
            \<longrightarrow> fst (query_by E param c options filters w) = Inr (Generator c rows))
       \<and> (\<forall>ds. (\<forall>d \<in> set ds. \<not> dict_contains d ''self'')
            \<longrightarrow> generator_list (Generator c (map JObj ds)) = Inr (map (instance_of c) ds))"
  using assms
  by (simp add: where_is_query embedded_is_query query_by_sends [where cl = cl] outcome_def
      generator_list_rows)

text \<open>C9 on the demo server: both calls on \<open>measurement\<close>, and the rows drained.\<close>

theorem where_and_embedded_run_the_same_query_witness:
  "clients demo_connected (server demo_measurement) = Some demo_client
   \<and> Entity_where demo_env demo_measurement JNull [(''status'', JStr ''active'')] demo_connected
       = (Inr (Generator demo_measurement
                [JObj [(''_id'', JNum 7), (''status'', JStr ''active'')],
                 JObj [(''_id'', JNum 8), (''status'', JStr ''active'')]]),
          demo_connected\<lparr>sent := sent demo_connected
            @ [\<lparr>verb = GET, sess = 1, target = ''api/measurement?where=q'', payload = None,
                if_match = None\<rparr>]\<rparr>)
   \<and> Entity_embedded demo_env demo_measurement JNull [(''status'', JStr ''active'')] demo_connected
       = (Inr (Generator demo_measurement
                [JObj [(''_id'', JNum 7), (''status'', JStr ''active'')],
                 JObj [(''_id'', JNum 8), (''status'', JStr ''active'')]]),
          demo_connected\<lparr>sent := sent demo_connected
            @ [\<lparr>verb = GET, sess = 1, target = ''api/measurement?embedded=q'', payload = None,
                if_match = None\<rparr>]\<rparr>)
   \<and> generator_list (Generator demo_measurement
                [JObj [(''_id'', JNum 7), (''status'', JStr ''active'')],
                 JObj [(''_id'', JNum 8), (''status'', JStr ''active'')]])
       = Inr [instance_of demo_measurement [(''_id'', JNum 7), (''status'', JStr ''active'')],
              instance_of demo_measurement [(''_id'', JNum 8), (''status'', JStr ''active'')]]"
proof -
  have cl: "clients demo_connected (server demo_measurement) = Some demo_client"
    by (simp add: demo_facts demo_measurement_def)
  note inst = where_and_embedded_run_the_same_query
    [OF cl, of demo_env JNull "[(''status'', JStr ''active'')]"]
  have w: "Entity_where demo_env demo_measurement JNull [(''status'', JStr ''active'')]
      = query_by demo_env ''where'' demo_measurement JNull [(''status'', JStr ''active'')]"
    and e: "Entity_embedded demo_env demo_measurement JNull [(''status'', JStr ''active'')]
      = query_by demo_env ''embedded'' demo_measurement JNull [(''status'', JStr ''active'')]"
    and l: "\<forall>ds. (\<forall>d \<in> set ds. \<not> dict_contains d ''self'')
            \<longrightarrow> generator_list (Generator demo_measurement (map JObj ds))
                  = Inr (map (instance_of demo_measurement) ds)"
    using inst by blast+
  have "generator_list (Generator demo_measurement
          (map JObj [[(''_id'', JNum 7), (''status'', JStr ''active'')],
                     [(''_id'', JNum 8), (''status'', JStr ''active'')]]))
        = Inr (map (instance_of demo_measurement)
                 [[(''_id'', JNum 7), (''status'', JStr ''active'')],
                  [(''_id'', JNum 8), (''status'', JStr ''active'')]])"
    by (rule l [rule_format]) (auto simp: dict_contains_def)
  moreover have "link demo_measurement = JStr ''measurement''"
    by (simp add: demo_measurement_def)
  ultimately show ?thesis
    using cl
    by (simp add: w e query_by_sends [OF cl] query_request_def demo_facts
        py_format_def demo_respond_def outcome_def demo_loads_def demo_items_def)
qed

section \<open>Lookup by id\<close>

text \<open>
  C5. For every id and every query option, \<open>get_by_id\<close> on a variant whose link is
  \<open>'measurement'\<close> fails on its assertion and leaves the state as it was: no request
  is sent.
\<close>

theorem get_by_id_measurement_refused:
  assumes "link c = JStr ''measurement''"
  shows "Entity_get_by_id E c ident options w = (Inl AssertionError, w)"
  using assms by (simp add: Entity_get_by_id_def raise_io_def)

text \<open>C5 on the pseudo-resource of the demo Client.\<close>

theorem get_by_id_measurement_refused_witness:
  "link demo_measurement = JStr ''measurement''
   \<and> Entity_get_by_id demo_env demo_measurement (JNum 1) JNull demo_connected
       = (Inl AssertionError, demo_connected)"
  using get_by_id_measurement_refused [of demo_measurement demo_env "JNum 1" JNull demo_connected]
  by (simp add: demo_measurement_def)

section \<open>Saving, removing and creating\<close>

text \<open>
  The statements below are about instances that bind neither \<open>server\<close> nor
  \<open>regular_fields\<close> in their own \<open>__dict__\<close>, and whose \<open>fields\<close> is a
  dictionary: the instances the constructor builds, and what assignments to field names
  make of them.
\<close>

text \<open>
  C6. For every instance whose field mapping holds \<open>_id\<close>, \<open>save()\<close> sends one PUT
  to \<open>{link}/{_id}\<close>. Its payload is the entries of the field mapping whose keys do
  not begin with an underscore, and its \<open>If-Match\<close> header is the \<open>_etag\<close> of the
  mapping when there is one that is not \<open>None\<close>. Whatever the server answers, the
  instance is after the call what it was before, its \<open>_etag\<close> included.
\<close>

theorem save_puts_regular_fields_and_keeps_the_instance:
  assumes "Entity_fields self = Inr (JObj d)"
    and "dict_get d ''_id'' = Some ident"
    and "dict_get (idict self) ''server'' = None"
    and "\<not> dict_contains (idict self) ''regular_fields''"
    and "clients w (server (cls self)) = Some cl"
    and "req = \<lparr>verb = PUT, sess = session cl,
                target = url cl @ ''/'' @ py_format E (Entity_link self) @ ''/''
                           @ py_format E ident,
                payload = Some (JObj (filter (\<lambda>(k, v). \<not> startswith_underscore k) d)),
                if_match = (case dict_get d ''_etag'' of
                              None \<Rightarrow> None
                            | Some t \<Rightarrow> if t = JNull then None else Some t)\<rparr>"
  shows "Entity_save E self w
           = (outcome E (respond E (sent w) req), self, w\<lparr>sent := sent w @ [req]\<rparr>)"
  using assms
  by (simp add: Entity_save_def Entity_server_def bind_err_def call_regular_fields_def
      Entity_regular_fields_def Client_put_sends split: option.splits)

text \<open>C6 on a row of the demo server that carries an \<open>_etag\<close>.\<close>

theorem save_puts_regular_fields_and_keeps_the_instance_witness:
  "Entity_fields (instance_of demo_book
       [(''_id'', JNum 7), (''_etag'', JStr ''t1''), (''title'', JStr ''Emma'')])
     = Inr (JObj [(''_id'', JNum 7), (''_etag'', JStr ''t1''), (''title'', JStr ''Emma'')])
   \<and> clients demo_connected (server demo_book) = Some demo_client
   \<and> Entity_save demo_env
        (instance_of demo_book
           [(''_id'', JNum 7), (''_etag'', JStr ''t1''), (''title'', JStr ''Emma'')])
        demo_connected
       = (Inr (JObj [(''_id'', JNum 7), (''_etag'', JStr ''t2'')]),
          instance_of demo_book
            [(''_id'', JNum 7), (''_etag'', JStr ''t1''), (''title'', JStr ''Emma'')],
          demo_connected\<lparr>sent := sent demo_connected
            @ [\<lparr>verb = PUT, sess = 1, target = ''api/book/7'',
                payload = Some (JObj [(''title'', JStr ''Emma'')]),
                if_match = Some (JStr ''t1'')\<rparr>]\<rparr>)"
  using save_puts_regular_fields_and_keeps_the_instance
    [of "instance_of demo_book
           [(''_id'', JNum 7), (''_etag'', JStr ''t1''), (''title'', JStr ''Emma'')]"
        "[(''_id'', JNum 7), (''_etag'', JStr ''t1''), (''title'', JStr ''Emma'')]"
        "JNum 7" demo_connected demo_client _ demo_env, OF _ _ _ _ _ refl]
  by (simp add: instance_of_def Entity_fields_def Entity_link_def demo_book_def demo_facts
      demo_respond_def outcome_def demo_loads_def dict_contains_def py_format_def demo_repr_def)

text \<open>
  C7. For every instance whose field mapping has no \<open>_id\<close>, \<open>save()\<close> and
  \<open>remove()\<close> raise \<open>KeyError\<close> and leave the state as it was: no request is sent.
\<close>

theorem save_and_remove_need_id:
  assumes "Entity_fields self = Inr (JObj d)"
    and "dict_get d ''_id'' = None"
    and "dict_get (idict self) ''server'' = None"
  shows "Entity_save E self w = (Inl (KeyError ''_id''), self, w)
         \<and> Entity_remove E self w = (Inl (KeyError ''_id''), self, w)"
  using assms by (simp add: Entity_save_def Entity_remove_def Entity_server_def bind_err_def)

text \<open>C7 on an instance that was never created on the server.\<close>

theorem save_and_remove_need_id_witness:
  "Entity_fields (instance_of demo_book [(''title'', JStr ''Emma'')])
     = Inr (JObj [(''title'', JStr ''Emma'')])
   \<and> dict_get [(''title'', JStr ''Emma'')] ''_id'' = None
   \<and> dict_get (idict (instance_of demo_book [(''title'', JStr ''Emma'')])) ''server'' = None
   \<and> Entity_save demo_env (instance_of demo_book [(''title'', JStr ''Emma'')]) demo_connected
       = (Inl (KeyError ''_id''), instance_of demo_book [(''title'', JStr ''Emma'')],
          demo_connected)
   \<and> Entity_remove demo_env (instance_of demo_book [(''title'', JStr ''Emma'')]) demo_connected
       = (Inl (KeyError ''_id''), instance_of demo_book [(''title'', JStr ''Emma'')],
          demo_connected)"
  using save_and_remove_need_id
    [of "instance_of demo_book [(''title'', JStr ''Emma'')]" "[(''title'', JStr ''Emma'')]"
        demo_env demo_connected]
  by (simp add: instance_of_def Entity_fields_def)

text \<open>
  C8. For every instance whose link is a string, \<open>create()\<close> sends one POST to the
  link with the whole field mapping as payload, keys that begin with an underscore
  included. When the answer is no error and decodes to an object, \<open>create()\<close> returns
  that object and the field mapping is updated with it in place: every key of the answer
  then maps to the answer's value, every other key is as before, and a key of the answer
  that is no attribute of the instance or its class reads as a field.
\<close>

theorem create_posts_all_fields_and_merges_the_answer:
  assumes "Entity_fields self = Inr (JObj d)"
    and "dict_get (idict self) ''server'' = None"
    and "Entity_link self = JStr l"
    and "clients w (server (cls self)) = Some cl"
    and "req = \<lparr>verb = POST, sess = session cl, target = url cl @ ''/'' @ l,
                payload = Some (JObj d), if_match = None\<rparr>"
    and "outcome E (respond E (sent w) req) = Inr (JObj body)"
    and "distinct (map fst body)"
    and "self' = self\<lparr>idict := dict_set (idict self) ''fields'' (JObj (dict_update d body))\<rparr>"
  shows "Entity_create E self w = (Inr (JObj body), self', w\<lparr>sent := sent w @ [req]\<rparr>)
       \<and> (\<forall>k. dict_get (dict_update d body) k
                = (case dict_get body k of Some v \<Rightarrow> Some v | None \<Rightarrow> dict_get d k))
       \<and> (\<forall>k v. dict_get body k = Some v \<and> \<not> is_dunder k \<and> dict_get (idict self) k = None
                \<and> k \<noteq> ''server'' \<and> k \<noteq> ''link'' \<and> k \<notin> set Entity_methods
             \<longrightarrow> Entity_attribute self' k = Inr (Value v))"
proof -
  have create: "Entity_create E self w = (Inr (JObj body), self', w\<lparr>sent := sent w @ [req]\<rparr>)"
    using assms
    by (simp add: Entity_create_def Entity_server_def bind_err_def Client_post_sends [where cl = cl])
  have merged: "dict_get (dict_update d body) k
                = (case dict_get body k of Some v \<Rightarrow> Some v | None \<Rightarrow> dict_get d k)" for k
    using assms(7) by (rule dict_get_dict_update)
  have readable: "Entity_attribute self' k = Inr (Value v)"
    if "dict_get body k = Some v" "\<not> is_dunder k" "dict_get (idict self) k = None"
      "k \<noteq> ''server''" "k \<noteq> ''link''" "k \<notin> set Entity_methods" for k v
  proof -
    from that(3) assms(1) have "k \<noteq> ''fields''"
      by (auto simp: Entity_fields_def split: option.splits)
    with that assms(8) merged [of k] show ?thesis
      by (simp add: Entity_attribute_def Entity_getattr_def Entity_fields_def bind_err_def
          dict_get_dict_set)
  qed
  from create merged readable show ?thesis by blast
qed

text \<open>C8 on the demo server, which answers a POST with a new \<open>_id\<close> and \<open>_etag\<close>.\<close>

theorem create_posts_all_fields_and_merges_the_answer_witness:
  "Entity_fields (instance_of demo_book [(''title'', JStr ''Emma''), (''_draft'', JBool True)])
     = Inr (JObj [(''title'', JStr ''Emma''), (''_draft'', JBool True)])
   \<and> clients demo_connected (server demo_book) = Some demo_client
   \<and> outcome demo_env (respond demo_env (sent demo_connected)
        \<lparr>verb = POST, sess = 1, target = ''api/book'',
         payload = Some (JObj [(''title'', JStr ''Emma''), (''_draft'', JBool True)]),
         if_match = None\<rparr>)
       = Inr (JObj [(''_id'', JNum 7), (''_etag'', JStr ''t2'')])
   \<and> Entity_create demo_env
        (instance_of demo_book [(''title'', JStr ''Emma''), (''_draft'', JBool True)])
        demo_connected
       = (Inr (JObj [(''_id'', JNum 7), (''_etag'', JStr ''t2'')]),
          instance_of demo_book
            [(''title'', JStr ''Emma''), (''_draft'', JBool True), (''_id'', JNum 7),
             (''_etag'', JStr ''t2'')],
          demo_connected\<lparr>sent := sent demo_connected
            @ [\<lparr>verb = POST, sess = 1, target = ''api/book'',
                payload = Some (JObj [(''title'', JStr ''Emma''), (''_draft'', JBool True)]),
                if_match = None\<rparr>]\<rparr>)
   \<and> Entity_attribute
        (instance_of demo_book
            [(''title'', JStr ''Emma''), (''_draft'', JBool True), (''_id'', JNum 7),
             (''_etag'', JStr ''t2'')]) ''_id'' = Inr (Value (JNum 7))"
  using create_posts_all_fields_and_merges_the_answer
    [of "instance_of demo_book [(''title'', JStr ''Emma''), (''_draft'', JBool True)]"
        "[(''title'', JStr ''Emma''), (''_draft'', JBool True)]" "''book''" demo_connected
        demo_client _ demo_env "[(''_id'', JNum 7), (''_etag'', JStr ''t2'')]" _,
     OF _ _ _ _ refl _ _ refl]
  by (simp add: instance_of_def Entity_fields_def Entity_link_def demo_book_def demo_facts
      demo_respond_def outcome_def demo_loads_def Entity_methods_def)

end
